theory Spec2Isabelle
  imports Main
begin

section \<open>RemoteConnection: the session coordinator of remote-connection.ts\<close>

text \<open>
  A shallow embedding of the class \<open>RemoteConnection\<close> and of the module-level function
  \<open>generateProxyingSessionId_\<close>. The class is a single-threaded object whose methods and
  promise callbacks mutate its fields; every method becomes a function from the session
  record to the updated record, paired with what the call hands back to its caller
  (a thrown error or a returned value). The collaborators that are not part of the class
  (the two transport engines, the logger, the metrics sink, the update sink, \<open>setTimeout\<close>,
  the random sources) are represented by what the class does to them: the engines by a
  record of the calls made on them, the sinks by the list of values written to them.
\<close>

subsection \<open>Enumerations and plain data\<close>

datatype GettingState = GettingState_NONE | TRYING_TO_GET_ACCESS | GETTING_ACCESS

datatype SharingState = SharingState_NONE | TRYING_TO_SHARE_ACCESS | SHARING_ACCESS

text \<open>
  \<open>social.PeerMessageType\<close> is declared outside this file; the two members the class names
  are kept, every other member is \<open>OTHER_PEER_MESSAGE\<close>.
\<close>

datatype PeerMessageType =
  SIGNAL_FROM_CLIENT_PEER | SIGNAL_FROM_SERVER_PEER | OTHER_PEER_MESSAGE nat

text \<open>\<open>rtc_to_net.Status\<close>, likewise declared elsewhere.\<close>

datatype Status = REPROXY_ERROR_STATUS | REPROXY_WORKING_STATUS | OTHER_STATUS nat

record Endpoint =
  address :: string
  port :: int

text \<open>
  The payload of a peer message is discriminated structurally: the code probes the field
  \<open>signals\<close> for \<open>undefined\<close>, and then the field \<open>proxyingId\<close> for truthiness. Both
  fields are therefore optional here; \<open>None\<close> is JavaScript's \<open>undefined\<close>.
\<close>

record MessageData =
  md_signals :: "string list option"
  md_proxyingId :: "string option"

record PeerMessage =
  msg_type :: PeerMessageType
  msg_data :: MessageData

record ConnectionState =
  cs_bytesSent :: int
  cs_bytesReceived :: int
  cs_localGettingFromRemote :: GettingState
  cs_localSharingWithRemote :: SharingState
  cs_activeEndpoint :: "Endpoint option"

datatype Update =
  SIGNALLING_MESSAGE PeerMessageType MessageData
| START_GIVING
| STOP_GIVING
| STOP_GETTING bool
| REPROXY_ERROR
| REPROXY_WORKING
| STATE ConnectionState

datatype js_error = Error string | TypeError string

datatype log_level = Debug | Info | Warn | Err

subsection \<open>The transport that a role engine is started with\<close>

text \<open>
  The peer-connection object handed to an engine, named after the constructor that the
  code calls for it. \<open>holographicIceOnly\<close> takes an optional transformer configuration;
  the only one the class passes is \<open>rc4\<close> with a configuration obtained from
  \<open>rc4.randomConfig()\<close>.
\<close>

datatype PeerConnection =
  PeerConnectionClass string
| bridge_best string
| bridge_preObfuscation string
| bridge_basicObfuscation string
| bridge_holographicIceOnly string "(string \<times> string) option"

text \<open>The handlers that the class installs on an engine's event queues.\<close>

datatype bytes_handler = HandleBytesReceived | HandleBytesSent

datatype status_handler = HandleStatusUpdate

datatype signal_handler = Sender PeerMessageType

text \<open>
  An engine is recorded by the calls the session has made on it: the arguments of
  \<open>start\<close>, the handlers set on its queues, the signals passed to
  \<open>handleSignalFromPeer\<close>, and how often \<open>stop\<close> was called.
\<close>

record RtcToNet =
  rtn_userId :: "string option"
  rtn_started :: "((bool \<times> bool) \<times> PeerConnection) option"
  rtn_signalsForPeer :: "signal_handler option"
  rtn_bytesReceivedFromPeer :: "bytes_handler option"
  rtn_bytesSentToPeer :: "bytes_handler option"
  rtn_statusUpdates :: "status_handler option"
  rtn_signalsFromPeer :: "MessageData list"
  rtn_stop_calls :: nat

record SocksToRtc =
  str_started :: "(Endpoint \<times> PeerConnection) option"
  str_signalsForPeer :: "signal_handler option"
  str_bytesReceivedFromPeer :: "bytes_handler option"
  str_bytesSentToPeer :: "bytes_handler option"
  str_signalsFromPeer :: "MessageData list"
  str_stop_calls :: nat

text \<open>What a method call hands back: a value, or an exception thrown to the caller.\<close>

datatype promise =
  Promise_resolve
| RtcToNet_onceReady
| SharingReset
| SocksToRtc_start_chain
| SocksToRtc_stop

datatype js_value = Undefined | Null | Promise promise

datatype outcome = Thrown js_error | Returned js_value

subsection \<open>The numbers of \<open>Math.random\<close>\<close>

text \<open>
  \<open>Math.random()\<close> returns an IEEE 754 double \<open>r\<close> with \<open>0 \<le> r < 1\<close>, and the code
  multiplies it by 25 in double arithmetic before it takes the floor. A non-negative
  finite double is \<open>significand * 2 ^ exponent\<close> with an integer significand below
  \<open>2 ^ 53\<close> and an exponent of at least \<open>-1074\<close>; \<open>Math_random_result\<close> says that a pair is
  such a double and lies below 1.
\<close>

record double =
  significand :: int
  exponent :: int

definition Math_random_result :: "double \<Rightarrow> bool" where
  "Math_random_result d =
     (0 \<le> significand d \<and> significand d < 2 ^ 53 \<and>
      - 1074 \<le> exponent d \<and> exponent d < 0 \<and>
      significand d < 2 ^ nat (- exponent d))"

text \<open>
  The product of a double and a small integer, rounded to the nearest double, ties to the
  even significand, as JavaScript's \<open>*\<close> does. The exact product has the significand
  \<open>M = significand * c\<close>; \<open>excess_bits M\<close> is the number of low bits by which \<open>M\<close> exceeds 53
  bits, and \<open>round_half_even M k\<close> drops \<open>k\<close> low bits of \<open>M\<close>. A product of a
  \<open>Math.random\<close> result and 25 neither overflows nor becomes subnormal by the rounding.
\<close>

function excess_bits :: "int \<Rightarrow> nat" where
  "excess_bits M = (if M < 2 ^ 53 then 0 else Suc (excess_bits (M div 2)))"
  by pat_completeness auto
termination
proof (relation "measure nat")
  show "wf (measure nat)" by simp
next
  fix M :: int
  assume "\<not> M < 2 ^ 53"
  then have "0 < M" by simp
  then show "(M div 2, M) \<in> measure nat" by simp
qed

declare excess_bits.simps [simp del]

definition round_half_even :: "int \<Rightarrow> nat \<Rightarrow> int" where
  "round_half_even M k =
     (let q = M div 2 ^ k; r = M mod 2 ^ k
      in if 2 * r < 2 ^ k then q
         else if 2 ^ k < 2 * r then q + 1
         else if even q then q else q + 1)"

definition double_times :: "double \<Rightarrow> int \<Rightarrow> double" where
  "double_times d c =
     (let M = significand d * c; k = excess_bits M
      in \<lparr>significand = round_half_even M k, exponent = exponent d + int k\<rparr>)"

definition Math_floor :: "double \<Rightarrow> int" where
  "Math_floor d =
     (if 0 \<le> exponent d then significand d * 2 ^ nat (exponent d)
      else significand d div 2 ^ nat (- exponent d))"

subsection \<open>Module constants and globals that live in other files\<close>

text \<open>
  \<open>constants.MESSAGE_VERSIONS\<close>, \<open>globals.settings\<close>, \<open>globals.effectiveMessageVersion()\<close>,
  \<open>Math.random()\<close> and \<open>rc4.randomConfig()\<close> are not defined in this file. They are
  parameters of the model. The two random sources are sequences; the session counts how
  many values it has drawn from each, and the next call reads the next element.
\<close>

record MESSAGE_VERSIONS =
  PRE_BRIDGE :: int
  BRIDGE :: int
  CAESAR :: int
  HOLOGRAPHIC_ICE :: int
  ENCRYPTED_SIGNALS :: int

record globals =
  message_versions :: MESSAGE_VERSIONS
  effectiveMessageVersion :: int
  allowNonUnicast :: bool
  reproxy :: bool
  Math_random :: "nat \<Rightarrow> double"
  rc4_randomConfig :: "nat \<Rightarrow> string"

subsection \<open>The session object\<close>

text \<open>
  The fields of the class, followed by the sinks it writes to: \<open>updates\<close> are the calls of
  \<open>sendUpdate_\<close>, \<open>logs\<close> the calls on the module's logger, \<open>metrics\<close> the calls of
  \<open>globals.metrics.increment\<close>, \<open>timers\<close> the delays of the \<open>setTimeout\<close> callbacks that
  have not fired yet. A name cannot end in an underscore here, so the private members
  \<open>bytesSent_\<close>, \<open>socksToRtc_\<close>, \<open>sendUpdate_\<close>, \<open>stateRefresh_\<close> and so on are
  written without it, and the fields of the state snapshot and of the message payload carry
  the prefixes \<open>cs_\<close> and \<open>md_\<close> to keep them apart from the fields of the class. The
  promise \<open>onceSharerCreated\<close> is recorded by whether the current one has been fulfilled
  (\<open>sharerCreated\<close>); the port-control handle is only passed on to the bridge and is left
  out. Byte counts are JavaScript numbers holding integers; they are modelled as unbounded
  integers. An engine is an object of its own: when a callback sets \<open>rtcToNet_\<close> or
  \<open>socksToRtc_\<close> to null the engine lives on, with the handlers the session has set on
  its queues. \<open>released_rtcToNet\<close> and \<open>released_socksToRtc\<close> hold these engines, in the
  order in which the session let go of them.
\<close>

record RemoteConnection =
  localGettingFromRemote :: GettingState
  localSharingWithRemote :: SharingState
  bytesSent :: int
  bytesReceived :: int
  socksToRtc :: "SocksToRtc option"
  rtcToNet :: "RtcToNet option"
  isUpdatePending :: bool
  sharerCreated :: bool
  sharingReset :: "promise option"
  activeEndpoint :: "Endpoint option"
  proxyingId :: "string option"
  userId :: "string option"
  updates :: "Update list"
  logs :: "(log_level \<times> string) list"
  metrics :: "string list"
  timers :: "nat list"
  random_calls :: nat
  rc4_calls :: nat
  released_rtcToNet :: "RtcToNet list"
  released_socksToRtc :: "SocksToRtc list"

definition sendUpdate :: "Update \<Rightarrow> RemoteConnection \<Rightarrow> RemoteConnection" where
  "sendUpdate u s = s\<lparr>updates := updates s @ [u]\<rparr>"

definition logger :: "log_level \<Rightarrow> string \<Rightarrow> RemoteConnection \<Rightarrow> RemoteConnection" where
  "logger lvl m s = s\<lparr>logs := logs s @ [(lvl, m)]\<rparr>"

definition metrics_increment :: "string \<Rightarrow> RemoteConnection \<Rightarrow> RemoteConnection" where
  "metrics_increment name s = s\<lparr>metrics := metrics s @ [name]\<rparr>"

text \<open>The constructor: field initialisers, then \<open>resetSharerCreated()\<close>.\<close>

definition resetSharerCreated :: "RemoteConnection \<Rightarrow> RemoteConnection" where
  "resetSharerCreated s = s\<lparr>sharerCreated := False\<rparr>"

definition new_RemoteConnection :: "string option \<Rightarrow> RemoteConnection" where
  "new_RemoteConnection uid = resetSharerCreated
     \<lparr> localGettingFromRemote = GettingState_NONE,
       localSharingWithRemote = SharingState_NONE,
       bytesSent = 0, bytesReceived = 0,
       socksToRtc = None, rtcToNet = None,
       isUpdatePending = False,
       sharerCreated = False,
       sharingReset = None,
       activeEndpoint = None,
       proxyingId = None,
       userId = uid,
       updates = [], logs = [], metrics = [], timers = [],
       random_calls = 0, rc4_calls = 0,
       released_rtcToNet = [], released_socksToRtc = [] \<rparr>"

definition getCurrentState :: "RemoteConnection \<Rightarrow> ConnectionState" where
  "getCurrentState s =
     \<lparr> cs_bytesSent = bytesSent s,
       cs_bytesReceived = bytesReceived s,
       cs_localGettingFromRemote = localGettingFromRemote s,
       cs_localSharingWithRemote = localSharingWithRemote s,
       cs_activeEndpoint = activeEndpoint s \<rparr>"

definition stateRefresh :: "RemoteConnection \<Rightarrow> RemoteConnection" where
  "stateRefresh s = sendUpdate (STATE (getCurrentState s)) s"


subsection \<open>generateProxyingSessionId_\<close>

definition PROXYING_SESSION_ID_LENGTH :: nat where
  "PROXYING_SESSION_ID_LENGTH = 16"

text \<open>
  \<open>randomCharCode\<close> is \<open>a + Math.floor(Math.random() * (b - a))\<close> with \<open>a = 97\<close> and
  \<open>b = 122\<close>; its argument is the double that \<open>Math.random()\<close> returned. The sum of 97 and
  an integer below \<open>2 ^ 53\<close> is exact. \<open>String.fromCharCode\<close> is applied to codes below 128
  only, where a character is its code.
\<close>

definition randomCharCode :: "double \<Rightarrow> int" where
  "randomCharCode r = (let a = 97; b = 122 in a + Math_floor (double_times r (b - a)))"

definition String_fromCharCode :: "int \<Rightarrow> char" where
  "String_fromCharCode n = char_of n"

text \<open>
  The \<open>for\<close> loop, with the loop variable \<open>i\<close> and the array \<open>letters\<close>; \<open>k\<close> is the number
  of values drawn from \<open>Math.random\<close> before the call, so that iteration \<open>i\<close> reads element
  \<open>k + i\<close> of the sequence. Joining one-character strings with the empty separator gives
  the list of the characters.
\<close>

function letters_loop :: "(nat \<Rightarrow> double) \<Rightarrow> nat \<Rightarrow> nat \<Rightarrow> string \<Rightarrow> string" where
  "letters_loop rnd k i letters =
     (if i < PROXYING_SESSION_ID_LENGTH
      then letters_loop rnd k (i + 1)
             (letters @ [String_fromCharCode (randomCharCode (rnd (k + i)))])
      else letters)"
  by pat_completeness auto
termination
  by (relation "measure (\<lambda>(rnd, k, i, letters). PROXYING_SESSION_ID_LENGTH - i)") auto

declare letters_loop.simps [simp del]

definition generateProxyingSessionId ::
  "globals \<Rightarrow> RemoteConnection \<Rightarrow> string \<times> RemoteConnection" where
  "generateProxyingSessionId g s =
     (letters_loop (Math_random g) (random_calls s) 0 [],
      s\<lparr>random_calls := random_calls s + PROXYING_SESSION_ID_LENGTH\<rparr>)"

subsection \<open>Signals\<close>

definition createSender ::
  "PeerMessageType \<Rightarrow> MessageData \<Rightarrow> RemoteConnection \<Rightarrow> RemoteConnection" where
  "createSender ty signal s = sendUpdate (SIGNALLING_MESSAGE ty signal) s"

text \<open>
  \<open>if (message.proxyingId)\<close> tests truthiness: \<open>undefined\<close> and the empty string are both
  falsy. The method returns \<open>Promise.resolve()\<close> on either branch.
\<close>

definition handleMetadataSignal ::
  "MessageData \<Rightarrow> RemoteConnection \<Rightarrow> RemoteConnection \<times> outcome" where
  "handleMetadataSignal message s =
     (case md_proxyingId message of
        None \<Rightarrow> (s, Returned (Promise Promise_resolve))
      | Some pid \<Rightarrow>
          if pid \<noteq> []
          then ((logger Info ''proxying session %1 initiated by remote peer'' s)
                  \<lparr>proxyingId := Some pid\<rparr>,
                Returned (Promise Promise_resolve))
          else (s, Returned (Promise Promise_resolve)))"

text \<open>
  \<open>handleSignalFromPeer\<close> of an engine: the signal is handed to the engine the session
  holds for the role.
\<close>

definition rtcToNet_handleSignalFromPeer ::
  "MessageData \<Rightarrow> RemoteConnection \<Rightarrow> RemoteConnection" where
  "rtcToNet_handleSignalFromPeer signal s =
     s\<lparr>rtcToNet :=
         map_option (\<lambda>e. e\<lparr>rtn_signalsFromPeer := rtn_signalsFromPeer e @ [signal]\<rparr>)
           (rtcToNet s)\<rparr>"

definition socksToRtc_handleSignalFromPeer ::
  "MessageData \<Rightarrow> RemoteConnection \<Rightarrow> RemoteConnection" where
  "socksToRtc_handleSignalFromPeer signal s =
     s\<lparr>socksToRtc :=
         map_option (\<lambda>e. e\<lparr>str_signalsFromPeer := str_signalsFromPeer e @ [signal]\<rparr>)
           (socksToRtc s)\<rparr>"

text \<open>
  \<open>forwardSignal_\<close> has no \<open>return\<close> with a value on any of its three branches, so the
  call yields \<open>undefined\<close> each time. An engine reference is truthy when it is not null.
\<close>

definition forwardSignal ::
  "PeerMessageType \<Rightarrow> MessageData \<Rightarrow> RemoteConnection \<Rightarrow> RemoteConnection \<times> outcome" where
  "forwardSignal ty signal s =
     (if SIGNAL_FROM_CLIENT_PEER = ty \<and> rtcToNet s \<noteq> None
      then (rtcToNet_handleSignalFromPeer signal s, Returned Undefined)
      else if SIGNAL_FROM_SERVER_PEER = ty \<and> socksToRtc s \<noteq> None
      then (socksToRtc_handleSignalFromPeer signal s, Returned Undefined)
      else (logger Warn ''Invalid signal: '' s, Returned Undefined))"

definition handleSignal :: "PeerMessage \<Rightarrow> RemoteConnection \<Rightarrow> RemoteConnection \<times> outcome" where
  "handleSignal message s =
     (if md_signals (msg_data message) \<noteq> None
      then forwardSignal (msg_type message) (msg_data message) s
      else handleMetadataSignal (msg_data message) s)"

subsection \<open>The sharing role\<close>

definition new_RtcToNet :: "string option \<Rightarrow> RtcToNet" where
  "new_RtcToNet uid =
     \<lparr> rtn_userId = uid, rtn_started = None, rtn_signalsForPeer = None,
       rtn_bytesReceivedFromPeer = None, rtn_bytesSentToPeer = None,
       rtn_statusUpdates = None, rtn_signalsFromPeer = [], rtn_stop_calls = 0 \<rparr>"

text \<open>
  \<open>startShare\<close>. The ICE configuration and the port-control handle are the same on both
  branches and are left out of the peer-connection value. The registration
  \<open>onceStopped.then(...)\<close> is the assignment of \<open>sharingReset_\<close>; the callback itself is
  \<open>rtcToNet_onceStopped\<close> below, and the callbacks on \<open>onceReady\<close> are
  \<open>rtcToNet_onceReady_fulfilled\<close> and \<open>rtcToNet_onceReady_rejected\<close>.
\<close>

definition startShare ::
  "globals \<Rightarrow> int \<Rightarrow> RemoteConnection \<Rightarrow> RemoteConnection \<times> outcome" where
  "startShare g remoteVersion s =
     (if rtcToNet s \<noteq> None
      then (logger Err ''rtcToNet_ already exists'' s,
            Thrown (Error ''rtcToNet_ already exists''))
      else
        let (s1, pc) =
              (if remoteVersion < 2
               then (logger Debug
                       ''peer is running client version 1, using old peerconnection'' s,
                     PeerConnectionClass ''rtctonet'')
               else (logger Debug ''peer is running client version >1, using bridge'' s,
                     bridge_best ''rtctonet''));
            e1 = new_RtcToNet (userId s1);
            e2 = e1\<lparr>rtn_started := Some ((allowNonUnicast g, reproxy g), pc)\<rparr>;
            e3 = e2\<lparr>rtn_signalsForPeer := Some (Sender SIGNAL_FROM_SERVER_PEER),
                    rtn_bytesReceivedFromPeer := Some HandleBytesReceived,
                    rtn_bytesSentToPeer := Some HandleBytesSent,
                    rtn_statusUpdates := Some HandleStatusUpdate\<rparr>;
            s2 = s1\<lparr>rtcToNet := Some e3, sharingReset := Some SharingReset\<rparr>;
            s3 = stateRefresh (s2\<lparr>localSharingWithRemote := TRYING_TO_SHARE_ACCESS\<rparr>);
            s4 = s3\<lparr>sharerCreated := True\<rparr>
        in (s4, Returned (Promise RtcToNet_onceReady)))"

text \<open>
  \<open>stopShare\<close>. \<open>this.rtcToNet_.stop()\<close> on a null reference throws a \<open>TypeError\<close>, after
  the state has been set and the update sent. \<open>sharingReset_\<close> is returned as it is.
\<close>

definition stopShare :: "RemoteConnection \<Rightarrow> RemoteConnection \<times> outcome" where
  "stopShare s =
     (if localSharingWithRemote s = SharingState_NONE
      then (logger Warn ''Cannot stop sharing when neither sharing nor trying to share.'' s,
            Returned (Promise Promise_resolve))
      else
        let s1 = stateRefresh (s\<lparr>localSharingWithRemote := SharingState_NONE\<rparr>)
        in case rtcToNet s1 of
             None \<Rightarrow> (s1, Thrown (TypeError ''Cannot read property stop of null''))
           | Some e \<Rightarrow>
               (s1\<lparr>rtcToNet := Some (e\<lparr>rtn_stop_calls := rtn_stop_calls e + 1\<rparr>)\<rparr>,
                Returned (case sharingReset s1 of None \<Rightarrow> Null | Some p \<Rightarrow> Promise p)))"

text \<open>
  Setting an engine reference to null: the session holds no engine any more, and the engine
  it held, if any, joins the released ones.
\<close>

definition release_rtcToNet :: "RemoteConnection \<Rightarrow> RemoteConnection" where
  "release_rtcToNet s =
     s\<lparr>released_rtcToNet :=
         released_rtcToNet s @ (case rtcToNet s of None \<Rightarrow> [] | Some e \<Rightarrow> [e]),
       rtcToNet := None\<rparr>"

definition release_socksToRtc :: "RemoteConnection \<Rightarrow> RemoteConnection" where
  "release_socksToRtc s =
     s\<lparr>released_socksToRtc :=
         released_socksToRtc s @ (case socksToRtc s of None \<Rightarrow> [] | Some e \<Rightarrow> [e]),
       socksToRtc := None\<rparr>"

text \<open>The callback registered on \<open>onceStopped\<close>: the stop-cleanup of the sharing role.\<close>

definition rtcToNet_onceStopped :: "RemoteConnection \<Rightarrow> RemoteConnection" where
  "rtcToNet_onceStopped s =
     (let s1 = sendUpdate STOP_GIVING (s\<lparr>localSharingWithRemote := SharingState_NONE\<rparr>);
          s2 = (release_rtcToNet s1)\<lparr>bytesSent := 0, bytesReceived := 0\<rparr>
      in stateRefresh s2)"

text \<open>The two callbacks chained on \<open>onceReady\<close>: \<open>then\<close> and \<open>catch\<close>.\<close>

definition rtcToNet_onceReady_fulfilled :: "RemoteConnection \<Rightarrow> RemoteConnection" where
  "rtcToNet_onceReady_fulfilled s =
     stateRefresh (sendUpdate START_GIVING (s\<lparr>localSharingWithRemote := SHARING_ACCESS\<rparr>))"

definition rtcToNet_onceReady_rejected :: "RemoteConnection \<Rightarrow> RemoteConnection" where
  "rtcToNet_onceReady_rejected s = fst (stopShare s)"

subsection \<open>The getting role\<close>

definition new_SocksToRtc :: SocksToRtc where
  "new_SocksToRtc =
     \<lparr> str_started = None, str_signalsForPeer = None,
       str_bytesReceivedFromPeer = None, str_bytesSentToPeer = None,
       str_signalsFromPeer = [], str_stop_calls = 0 \<rparr>"

text \<open>
  The \<open>switch (commonVersion)\<close> of \<open>startGet\<close>, with the two statements before it. The case
  labels are compared in the order of the source, the first equal one wins, and
  \<open>default\<close> takes every other value. Only the \<open>default\<close> branch calls
  \<open>rc4.randomConfig()\<close>.
\<close>

definition startGet_switch ::
  "globals \<Rightarrow> int \<Rightarrow> RemoteConnection \<Rightarrow> RemoteConnection \<times> PeerConnection" where
  "startGet_switch g remoteVersion s =
     (let localVersion = effectiveMessageVersion g;
          commonVersion = min localVersion remoteVersion;
          s1 = logger Info ''lowest shared client version is %1 (me: %2, peer: %3)'' s;
          mv = message_versions g
      in if commonVersion = PRE_BRIDGE mv
         then (logger Debug ''using old peerconnection'' s1,
               PeerConnectionClass ''sockstortc'')
         else if commonVersion = BRIDGE mv
         then (logger Debug ''using bridge without obfuscation'' s1,
               bridge_preObfuscation ''sockstortc'')
         else if commonVersion = CAESAR mv
         then (logger Debug ''using bridge with caesar obfuscation'' s1,
               bridge_basicObfuscation ''sockstortc'')
         else if commonVersion = HOLOGRAPHIC_ICE mv \<or> commonVersion = ENCRYPTED_SIGNALS mv
         then (logger Debug ''using holographic ICE with caesar obfuscation'' s1,
               bridge_holographicIceOnly ''sockstortc'' None)
         else (let s2 = logger Debug ''using holographic ICE with RC4 obfuscation'' s1
               in (s2\<lparr>rc4_calls := rc4_calls s2 + 1\<rparr>,
                   bridge_holographicIceOnly ''sockstortc''
                     (Some (''rc4'', rc4_randomConfig g (rc4_calls s2))))))"

text \<open>
  \<open>startGet\<close>. The two guards throw before anything else is done. The callback registered
  on \<open>onceStopping_\<close> is \<open>socksToRtc_onceStopping\<close> below; the chain
  \<open>start(...).then(...).catch(...)\<close> is \<open>socksToRtc_start_settled\<close>.
\<close>

definition startGet ::
  "globals \<Rightarrow> int \<Rightarrow> RemoteConnection \<Rightarrow> RemoteConnection \<times> outcome" where
  "startGet g remoteVersion s =
     (if localGettingFromRemote s \<noteq> GettingState_NONE
      then (logger Err ''Currently have a connection open'' s,
            Thrown (Error ''Currently have a connection open''))
      else if socksToRtc s \<noteq> None
      then (logger Err ''socksToRtc_ already exists'' s,
            Thrown (Error ''socksToRtc_ already exists''))
      else
        let (pid, s1) = generateProxyingSessionId g s;
            s2 = logger Info ''initiating proxying session %1'' (s1\<lparr>proxyingId := Some pid\<rparr>);
            signal = \<lparr>md_signals = None, md_proxyingId = proxyingId s2\<rparr>;
            s3 = sendUpdate (SIGNALLING_MESSAGE SIGNAL_FROM_CLIENT_PEER signal) s2;
            e1 = new_SocksToRtc\<lparr>str_bytesReceivedFromPeer := Some HandleBytesReceived,
                                str_bytesSentToPeer := Some HandleBytesSent\<rparr>;
            s4 = s3\<lparr>socksToRtc := Some e1\<rparr>;
            s5 = stateRefresh (s4\<lparr>localGettingFromRemote := TRYING_TO_GET_ACCESS\<rparr>);
            tcpServer = \<lparr>address = ''127.0.0.1'', port = 0\<rparr>;
            (s6, pc) = startGet_switch g remoteVersion s5;
            s7 = metrics_increment ''attempt'' s6;
            e2 = e1\<lparr>str_started := Some (tcpServer, pc)\<rparr>;
            e3 = e2\<lparr>str_signalsForPeer := Some (Sender SIGNAL_FROM_CLIENT_PEER)\<rparr>
        in (s7\<lparr>socksToRtc := Some e3\<rparr>, Returned (Promise SocksToRtc_start_chain)))"

text \<open>
  The callback on \<open>onceStopping_\<close>: the stop-cleanup of the getting role. The state update
  is sent before the engine reference and the endpoint are cleared.
\<close>

definition socksToRtc_onceStopping :: "RemoteConnection \<Rightarrow> RemoteConnection" where
  "socksToRtc_onceStopping s =
     (let isError = (GETTING_ACCESS = localGettingFromRemote s);
          s1 = sendUpdate (STOP_GETTING isError) s;
          s2 = stateRefresh (s1\<lparr>localGettingFromRemote := GettingState_NONE,
                               bytesSent := 0, bytesReceived := 0\<rparr>)
      in (release_socksToRtc s2)\<lparr>activeEndpoint := None\<rparr>)"

text \<open>
  How the promise returned by \<open>startGet\<close> settles, given how the engine's own \<open>start\<close>
  promise settled: the \<open>then\<close> callback on fulfilment, the \<open>catch\<close> callback on rejection.
\<close>

datatype 'a settled = Fulfilled 'a | Rejected js_error

definition socksToRtc_start_settled ::
  "Endpoint settled \<Rightarrow> RemoteConnection \<Rightarrow> RemoteConnection \<times> Endpoint settled" where
  "socksToRtc_start_settled r s =
     (case r of
        Fulfilled endpoint \<Rightarrow>
          (let s1 = logger Info ''SOCKS proxy listening on %1'' s;
               s2 = metrics_increment ''success''
                      (s1\<lparr>localGettingFromRemote := GETTING_ACCESS\<rparr>);
               s3 = stateRefresh s2
           in (s3\<lparr>activeEndpoint := Some endpoint\<rparr>, Fulfilled endpoint))
      | Rejected e \<Rightarrow>
          (stateRefresh (s\<lparr>localGettingFromRemote := GettingState_NONE\<rparr>),
           Rejected (Error ''Could not start proxy'')))"

text \<open>
  \<open>stopGet\<close>. The first branch is a bare \<open>return;\<close>. \<open>this.socksToRtc_.stop()\<close> on a null
  reference throws a \<open>TypeError\<close>.
\<close>

definition stopGet :: "RemoteConnection \<Rightarrow> RemoteConnection \<times> outcome" where
  "stopGet s =
     (if localGettingFromRemote s = GettingState_NONE
      then (logger Warn ''Cannot stop proxying when neither proxying nor trying to proxy.'' s,
            Returned Undefined)
      else
        let s1 = metrics_increment ''stop'' s;
            s2 = stateRefresh (s1\<lparr>localGettingFromRemote := GettingState_NONE\<rparr>)
        in case socksToRtc s2 of
             None \<Rightarrow> (s2, Thrown (TypeError ''Cannot read property stop of null''))
           | Some e \<Rightarrow>
               (s2\<lparr>socksToRtc := Some (e\<lparr>str_stop_calls := str_stop_calls e + 1\<rparr>)\<rparr>,
                Returned (Promise SocksToRtc_stop)))"

subsection \<open>Byte counters and the delayed state refresh\<close>

text \<open>
  \<open>delayedUpdate_\<close> calls \<open>setTimeout\<close> with a delay of 1000 milliseconds; the pending
  callback is recorded by its delay. \<open>delayedUpdate_timeout\<close> is the callback.
\<close>

definition delayedUpdate :: "RemoteConnection \<Rightarrow> RemoteConnection" where
  "delayedUpdate s =
     (if \<not> isUpdatePending s
      then s\<lparr>timers := timers s @ [1000], isUpdatePending := True\<rparr>
      else s)"

definition delayedUpdate_timeout :: "RemoteConnection \<Rightarrow> RemoteConnection" where
  "delayedUpdate_timeout s = (stateRefresh s)\<lparr>isUpdatePending := False\<rparr>"

definition handleBytesReceived :: "int \<Rightarrow> RemoteConnection \<Rightarrow> RemoteConnection" where
  "handleBytesReceived bytes s = delayedUpdate (s\<lparr>bytesReceived := bytesReceived s + bytes\<rparr>)"

definition handleBytesSent :: "int \<Rightarrow> RemoteConnection \<Rightarrow> RemoteConnection" where
  "handleBytesSent bytes s = delayedUpdate (s\<lparr>bytesSent := bytesSent s + bytes\<rparr>)"

definition handleStatusUpdate :: "Status \<Rightarrow> RemoteConnection \<Rightarrow> RemoteConnection" where
  "handleStatusUpdate status s =
     (case status of
        REPROXY_ERROR_STATUS \<Rightarrow> sendUpdate REPROXY_ERROR s
      | REPROXY_WORKING_STATUS \<Rightarrow> sendUpdate REPROXY_WORKING s
      | OTHER_STATUS n \<Rightarrow>
          logger Warn ''Received unrecognized status update from RtcToNet: %1'' s)"

subsection \<open>Events\<close>

text \<open>
  Everything that can happen to a session: a call of a public method, the settling of a
  promise the session has registered a callback on, an element arriving on a queue of an
  engine the session has created (delivered to the handler that was set on that queue, if
  any), and the firing of the oldest pending timer. The handlers stay on an engine's queues
  after the session has set its reference to null, so a queue event names its engine: the
  one the session holds now, or one of those it has released, by its place in the list.
\<close>

datatype engine_ref = Current | Released nat

definition the_RtcToNet :: "engine_ref \<Rightarrow> RemoteConnection \<Rightarrow> RtcToNet option" where
  "the_RtcToNet ref s =
     (case ref of
        Current \<Rightarrow> rtcToNet s
      | Released i \<Rightarrow>
          if i < length (released_rtcToNet s) then Some (released_rtcToNet s ! i) else None)"

definition the_SocksToRtc :: "engine_ref \<Rightarrow> RemoteConnection \<Rightarrow> SocksToRtc option" where
  "the_SocksToRtc ref s =
     (case ref of
        Current \<Rightarrow> socksToRtc s
      | Released i \<Rightarrow>
          if i < length (released_socksToRtc s) then Some (released_socksToRtc s ! i) else None)"

definition run_bytes_handler ::
  "bytes_handler option \<Rightarrow> int \<Rightarrow> RemoteConnection \<Rightarrow> RemoteConnection" where
  "run_bytes_handler h bytes s =
     (case h of
        None \<Rightarrow> s
      | Some HandleBytesReceived \<Rightarrow> handleBytesReceived bytes s
      | Some HandleBytesSent \<Rightarrow> handleBytesSent bytes s)"

definition run_signal_handler ::
  "signal_handler option \<Rightarrow> MessageData \<Rightarrow> RemoteConnection \<Rightarrow> RemoteConnection" where
  "run_signal_handler h signal s =
     (case h of None \<Rightarrow> s | Some (Sender ty) \<Rightarrow> createSender ty signal s)"

definition run_status_handler ::
  "status_handler option \<Rightarrow> Status \<Rightarrow> RemoteConnection \<Rightarrow> RemoteConnection" where
  "run_status_handler h status s =
     (case h of None \<Rightarrow> s | Some HandleStatusUpdate \<Rightarrow> handleStatusUpdate status s)"

definition rtcToNet_emits ::
  "engine_ref \<Rightarrow> (RtcToNet \<Rightarrow> RemoteConnection \<Rightarrow> RemoteConnection) \<Rightarrow>
     RemoteConnection \<Rightarrow> RemoteConnection" where
  "rtcToNet_emits ref f s = (case the_RtcToNet ref s of None \<Rightarrow> s | Some e \<Rightarrow> f e s)"

definition socksToRtc_emits ::
  "engine_ref \<Rightarrow> (SocksToRtc \<Rightarrow> RemoteConnection \<Rightarrow> RemoteConnection) \<Rightarrow>
     RemoteConnection \<Rightarrow> RemoteConnection" where
  "socksToRtc_emits ref f s = (case the_SocksToRtc ref s of None \<Rightarrow> s | Some e \<Rightarrow> f e s)"

definition fire_timer :: "RemoteConnection \<Rightarrow> RemoteConnection" where
  "fire_timer s =
     (case timers s of [] \<Rightarrow> s | d # ds \<Rightarrow> delayedUpdate_timeout (s\<lparr>timers := ds\<rparr>))"

datatype event =
  Call_startShare int
| Call_stopShare
| Call_startGet int
| Call_stopGet
| Call_handleSignal PeerMessage
| Call_resetSharerCreated
| RtcToNet_ready
| RtcToNet_ready_failed
| RtcToNet_stopped
| RtcToNet_bytesReceived engine_ref int
| RtcToNet_bytesSent engine_ref int
| RtcToNet_status engine_ref Status
| RtcToNet_signalForPeer engine_ref MessageData
| SocksToRtc_started Endpoint
| SocksToRtc_start_failed js_error
| SocksToRtc_stopping
| SocksToRtc_bytesReceived engine_ref int
| SocksToRtc_bytesSent engine_ref int
| SocksToRtc_signalForPeer engine_ref MessageData
| Timeout

fun step :: "globals \<Rightarrow> RemoteConnection \<Rightarrow> event \<Rightarrow> RemoteConnection" where
  "step g s (Call_startShare v) = fst (startShare g v s)"
| "step g s Call_stopShare = fst (stopShare s)"
| "step g s (Call_startGet v) = fst (startGet g v s)"
| "step g s Call_stopGet = fst (stopGet s)"
| "step g s (Call_handleSignal m) = fst (handleSignal m s)"
| "step g s Call_resetSharerCreated = resetSharerCreated s"
| "step g s RtcToNet_ready = rtcToNet_onceReady_fulfilled s"
| "step g s RtcToNet_ready_failed = rtcToNet_onceReady_rejected s"
| "step g s RtcToNet_stopped = rtcToNet_onceStopped s"
| "step g s (RtcToNet_bytesReceived ref n) =
     rtcToNet_emits ref (\<lambda>e. run_bytes_handler (rtn_bytesReceivedFromPeer e) n) s"
| "step g s (RtcToNet_bytesSent ref n) =
     rtcToNet_emits ref (\<lambda>e. run_bytes_handler (rtn_bytesSentToPeer e) n) s"
| "step g s (RtcToNet_status ref st) =
     rtcToNet_emits ref (\<lambda>e. run_status_handler (rtn_statusUpdates e) st) s"
| "step g s (RtcToNet_signalForPeer ref m) =
     rtcToNet_emits ref (\<lambda>e. run_signal_handler (rtn_signalsForPeer e) m) s"
| "step g s (SocksToRtc_started ep) = fst (socksToRtc_start_settled (Fulfilled ep) s)"
| "step g s (SocksToRtc_start_failed err) = fst (socksToRtc_start_settled (Rejected err) s)"
| "step g s SocksToRtc_stopping = socksToRtc_onceStopping s"
| "step g s (SocksToRtc_bytesReceived ref n) =
     socksToRtc_emits ref (\<lambda>e. run_bytes_handler (str_bytesReceivedFromPeer e) n) s"
| "step g s (SocksToRtc_bytesSent ref n) =
     socksToRtc_emits ref (\<lambda>e. run_bytes_handler (str_bytesSentToPeer e) n) s"
| "step g s (SocksToRtc_signalForPeer ref m) =
     socksToRtc_emits ref (\<lambda>e. run_signal_handler (str_signalsForPeer e) m) s"
| "step g s Timeout = fire_timer s"

text \<open>\<open>run g s evs\<close> is the session after the events \<open>evs\<close>, in order, starting from \<open>s\<close>.\<close>

fun run :: "globals \<Rightarrow> RemoteConnection \<Rightarrow> event list \<Rightarrow> RemoteConnection" where
  "run g s [] = s"
| "run g s (e # es) = run g (step g s e) es"

subsection \<open>A concrete configuration\<close>

text \<open>
  The version table with the tiers numbered 1 to 5 in their order, a local version newer
  than all of them, a \<open>Math.random\<close> that runs through the twenty-five doubles
  \<open>(41 * j + 21) / 1024\<close> for \<open>j = 0, \<dots>, 24\<close>, and an \<open>rc4.randomConfig\<close> that numbers
  its keys.
\<close>

definition example_versions :: MESSAGE_VERSIONS where
  "example_versions =
     \<lparr>PRE_BRIDGE = 1, BRIDGE = 2, CAESAR = 3, HOLOGRAPHIC_ICE = 4, ENCRYPTED_SIGNALS = 5\<rparr>"

definition example_globals :: globals where
  "example_globals =
     \<lparr> message_versions = example_versions,
       effectiveMessageVersion = 6,
       allowNonUnicast = False,
       reproxy = False,
       Math_random = (\<lambda>n. \<lparr>significand = 41 * int (n mod 25) + 21, exponent = - 10\<rparr>),
       rc4_randomConfig = (\<lambda>n. if n = 0 then ''key0'' else ''key1'') \<rparr>"

definition example_session :: RemoteConnection where
  "example_session = new_RemoteConnection (Some ''alice'')"

subsection \<open>Predicates on runs\<close>

text \<open>
  A burst of byte-count events, as the two byte handlers receive them from whichever engine
  emits them.
\<close>

datatype byte_count = Received int | Sent int

fun handleBytes :: "byte_count \<Rightarrow> RemoteConnection \<Rightarrow> RemoteConnection" where
  "handleBytes (Received n) s = handleBytesReceived n s"
| "handleBytes (Sent n) s = handleBytesSent n s"

fun deliver_bytes :: "RemoteConnection \<Rightarrow> byte_count list \<Rightarrow> RemoteConnection" where
  "deliver_bytes s [] = s"
| "deliver_bytes s (b # bs) = deliver_bytes (handleBytes b s) bs"




text \<open>
  A run in which the fulfilment of the getting engine's \<open>start\<close> promise is never delivered
  while the session holds no getting engine.
\<close>

fun is_started :: "event \<Rightarrow> bool" where
  "is_started (SocksToRtc_started ep) = True"
| "is_started e = False"

fun started_with_engine :: "globals \<Rightarrow> RemoteConnection \<Rightarrow> event list \<Rightarrow> bool" where
  "started_with_engine g s [] = True"
| "started_with_engine g s (e # es) =
     ((is_started e \<longrightarrow> socksToRtc s \<noteq> None) \<and>
      started_with_engine g (step g s e) es)"


definition getting_inv :: "RemoteConnection \<Rightarrow> bool" where
  "getting_inv s = (localGettingFromRemote s \<noteq> GettingState_NONE \<longrightarrow> socksToRtc s \<noteq> None)"

definition trying_inv :: "RemoteConnection \<Rightarrow> bool" where
  "trying_inv s =
     (localGettingFromRemote s = TRYING_TO_GET_ACCESS \<longrightarrow> socksToRtc s \<noteq> None)"

text \<open>The events that write the getting state or the reference to the getting engine.\<close>

fun getting_event :: "event \<Rightarrow> bool" where
  "getting_event (Call_startGet v) = True"
| "getting_event Call_stopGet = True"
| "getting_event (SocksToRtc_started ep) = True"
| "getting_event (SocksToRtc_start_failed err) = True"
| "getting_event SocksToRtc_stopping = True"
| "getting_event e = False"



section \<open>Properties\<close>

lemmas sink_defs =
  sendUpdate_def logger_def metrics_increment_def stateRefresh_def getCurrentState_def

lemmas example_defs =
  example_session_def example_globals_def example_versions_def
  new_RemoteConnection_def resetSharerCreated_def

subsection \<open>Faults of \<open>startGet\<close>\<close>

text \<open>
  C3. When \<open>startGet\<close> is called while the getting state is not \<open>NONE\<close>, or while a getting
  engine exists, the call throws an \<open>Error\<close> to its caller instead of returning a promise,
  and the session it leaves behind differs from the one it found only by the line written
  to the logger: getting state, sharing state, byte counters, proxying id, active endpoint,
  both engine references and the list of updates sent are what they were.
\<close>

theorem startGet_fault_leaves_session:
  assumes "localGettingFromRemote s \<noteq> GettingState_NONE \<or> socksToRtc s \<noteq> None"
  shows "(\<exists>m. startGet g v s = (s\<lparr>logs := logs s @ [(Err, m)]\<rparr>, Thrown (Error m))) \<and>
         (let s' = fst (startGet g v s)
          in localGettingFromRemote s' = localGettingFromRemote s \<and>
             localSharingWithRemote s' = localSharingWithRemote s \<and>
             bytesSent s' = bytesSent s \<and> bytesReceived s' = bytesReceived s \<and>
             proxyingId s' = proxyingId s \<and> activeEndpoint s' = activeEndpoint s \<and>
             socksToRtc s' = socksToRtc s \<and> rtcToNet s' = rtcToNet s \<and>
             updates s' = updates s)"
  using assms by (auto simp: startGet_def logger_def)

text \<open>The second of two calls in immediate succession, on the example session.\<close>

theorem startGet_fault_leaves_session_witness:
  "localGettingFromRemote (fst (startGet example_globals 6 example_session))
     \<noteq> GettingState_NONE \<and>
   snd (startGet example_globals 5 (fst (startGet example_globals 6 example_session)))
     = Thrown (Error ''Currently have a connection open'') \<and>
   socksToRtc (fst (startGet example_globals 5
                      (fst (startGet example_globals 6 example_session))))
     = socksToRtc (fst (startGet example_globals 6 example_session))"
proof -
  let ?s1 = "fst (startGet example_globals 6 example_session)"
  have h: "localGettingFromRemote ?s1 \<noteq> GettingState_NONE"
    by code_simp
  then have "localGettingFromRemote ?s1 \<noteq> GettingState_NONE \<or> socksToRtc ?s1 \<noteq> None"
    by simp
  from startGet_fault_leaves_session [OF this, of example_globals 5]
  have "socksToRtc (fst (startGet example_globals 5 ?s1)) = socksToRtc ?s1"
    by (simp add: Let_def)
  moreover have "snd (startGet example_globals 5 ?s1)
                   = Thrown (Error ''Currently have a connection open'')"
    using h by (simp add: startGet_def)
  ultimately show ?thesis using h by simp
qed

subsection \<open>Failure of the getting engine to start\<close>

lemma startGet_switch_getting:
  "localGettingFromRemote (fst (startGet_switch g v s)) = localGettingFromRemote s"
  by (simp add: startGet_switch_def sink_defs Let_def)

lemma startGet_returns_chain:
  assumes "localGettingFromRemote s = GettingState_NONE" and "socksToRtc s = None"
  shows "snd (startGet g v s) = Returned (Promise SocksToRtc_start_chain)"
    and "localGettingFromRemote (fst (startGet g v s)) = TRYING_TO_GET_ACCESS"
  using assms
  by (simp_all add: startGet_def Let_def split_beta startGet_switch_getting
        metrics_increment_def)
     (simp add: sink_defs generateProxyingSessionId_def)

text \<open>
  C4. A \<open>startGet\<close> that passes its guards returns the promise of the chain
  \<open>start(...).then(...).catch(...)\<close> and leaves the getting state at
  \<open>TRYING_TO_GET_ACCESS\<close>. When the engine's \<open>start\<close> promise is then rejected, in
  whatever state \<open>t\<close> the session is by that time and whatever the cause, the \<open>catch\<close>
  callback sets the getting state to \<open>NONE\<close>, sends one \<open>STATE\<close> update carrying the new
  state, changes nothing else in the session, and the promise that \<open>startGet\<close> returned is
  rejected with \<open>Error('Could not start proxy')\<close>, in which the cause does not appear.
\<close>

theorem start_failure_resets_and_rejects_generic:
  assumes "localGettingFromRemote s = GettingState_NONE" and "socksToRtc s = None"
  shows "snd (startGet g v s) = Returned (Promise SocksToRtc_start_chain) \<and>
         localGettingFromRemote (fst (startGet g v s)) = TRYING_TO_GET_ACCESS \<and>
         localGettingFromRemote (fst (socksToRtc_start_settled (Rejected cause) t))
           = GettingState_NONE \<and>
         updates (fst (socksToRtc_start_settled (Rejected cause) t))
           = updates t @
             [STATE ((getCurrentState t)\<lparr>cs_localGettingFromRemote := GettingState_NONE\<rparr>)] \<and>
         fst (socksToRtc_start_settled (Rejected cause) t)
           = t\<lparr>localGettingFromRemote := GettingState_NONE,
                updates := updates (fst (socksToRtc_start_settled (Rejected cause) t))\<rparr> \<and>
         snd (socksToRtc_start_settled (Rejected cause) t)
           = Rejected (Error ''Could not start proxy'') \<and>
         snd (socksToRtc_start_settled (Rejected cause) t)
           = snd (socksToRtc_start_settled (Rejected cause') t)"
  using startGet_returns_chain [OF assms, of g v]
  by (simp add: socksToRtc_start_settled_def sink_defs)

text \<open>The example session: \<open>startGet\<close>, then a start that fails on a time-out.\<close>

theorem start_failure_resets_and_rejects_generic_witness:
  "snd (startGet example_globals 6 example_session)
     = Returned (Promise SocksToRtc_start_chain) \<and>
   localGettingFromRemote (fst (startGet example_globals 6 example_session))
     = TRYING_TO_GET_ACCESS \<and>
   localGettingFromRemote
     (fst (socksToRtc_start_settled (Rejected (Error ''ICE timed out''))
            (fst (startGet example_globals 6 example_session))))
     = GettingState_NONE \<and>
   snd (socksToRtc_start_settled (Rejected (Error ''ICE timed out''))
          (fst (startGet example_globals 6 example_session)))
     = Rejected (Error ''Could not start proxy'')"
proof -
  have pre: "localGettingFromRemote example_session = GettingState_NONE"
      "socksToRtc example_session = None"
    by (simp_all add: example_defs)
  from start_failure_resets_and_rejects_generic
         [OF pre, of example_globals 6 "Error ''ICE timed out''"
            "fst (startGet example_globals 6 example_session)"]
  show ?thesis by simp
qed

subsection \<open>Stopping a role that is not active\<close>

text \<open>
  C5. On a session whose two roles are both \<open>NONE\<close>, \<open>stopShare\<close> returns
  \<open>Promise.resolve()\<close>, whereas \<open>stopGet\<close> returns \<open>undefined\<close>, which is not a promise.
  Neither call sends an update, and each leaves the session as it was but for one warning
  written to the logger.
\<close>

theorem stopGet_when_none_returns_undefined:
  "snd (stopShare example_session) = Returned (Promise Promise_resolve) \<and>
   snd (stopGet example_session) = Returned Undefined \<and>
   snd (stopGet example_session) \<noteq> Returned (Promise Promise_resolve) \<and>
   updates (fst (stopGet example_session)) = updates example_session \<and>
   updates (fst (stopShare example_session)) = updates example_session \<and>
   fst (stopGet example_session)
     = example_session\<lparr>logs := logs (fst (stopGet example_session))\<rparr> \<and>
   fst (stopShare example_session)
     = example_session\<lparr>logs := logs (fst (stopShare example_session))\<rparr>"
  by (simp add: stopGet_def stopShare_def example_defs logger_def)

subsection \<open>Signals for a role without an engine\<close>

text \<open>
  C6. A message that carries \<open>signals\<close>, of type \<open>SIGNAL_FROM_CLIENT_PEER\<close> while there is
  no \<open>RtcToNet\<close>, or of type \<open>SIGNAL_FROM_SERVER_PEER\<close> while there is no \<open>SocksToRtc\<close>, makes
  \<open>handleSignal\<close> write one warning to the logger and return without throwing; no engine
  receives the signal and every field of the session keeps its value.
\<close>

theorem handleSignal_without_engine_drops:
  assumes "md_signals (msg_data m) \<noteq> None"
    and "(msg_type m = SIGNAL_FROM_CLIENT_PEER \<and> rtcToNet s = None) \<or>
         (msg_type m = SIGNAL_FROM_SERVER_PEER \<and> socksToRtc s = None)"
  shows "handleSignal m s
           = (s\<lparr>logs := logs s @ [(Warn, ''Invalid signal: '')]\<rparr>, Returned Undefined)"
  using assms by (auto simp: handleSignal_def forwardSignal_def logger_def)

theorem handleSignal_without_engine_drops_witness:
  "handleSignal
     \<lparr>msg_type = SIGNAL_FROM_CLIENT_PEER,
      msg_data = \<lparr>md_signals = Some [''candidate''], md_proxyingId = None\<rparr>\<rparr>
     example_session
   = (example_session\<lparr>logs := [(Warn, ''Invalid signal: '')]\<rparr>, Returned Undefined)"
  using handleSignal_without_engine_drops
          [of "\<lparr>msg_type = SIGNAL_FROM_CLIENT_PEER,
                msg_data = \<lparr>md_signals = Some [''candidate''], md_proxyingId = None\<rparr>\<rparr>"
              example_session]
  by (simp add: example_defs)

subsection \<open>The transport chosen by \<open>startGet\<close>\<close>

text \<open>
  C1. Let the five named tiers be numbered in increasing order, and let \<open>startGet\<close> pass
  its two guards. Then the engine is started on the local listener \<open>127.0.0.1:0\<close> with
  the peer connection that the table gives for
  \<open>commonVersion = min (effectiveMessageVersion, remoteVersion)\<close>: the old peer-connection
  class for \<open>PRE_BRIDGE\<close>, the bridge without obfuscation for \<open>BRIDGE\<close>, the bridge with
  basic obfuscation for \<open>CAESAR\<close>, holographic ICE without a transformer argument (the
  bridge's basic obfuscation) for \<open>HOLOGRAPHIC_ICE\<close> and for \<open>ENCRYPTED_SIGNALS\<close>, and for
  every version above \<open>ENCRYPTED_SIGNALS\<close> holographic ICE with the transformer \<open>rc4\<close>,
  configured with the value of a call of \<open>rc4.randomConfig()\<close> made during this very call:
  the next unread element of the sequence, after which the number of calls has grown by
  one. On a named tier \<open>rc4.randomConfig()\<close> is not called.
\<close>

theorem startGet_selects_transport:
  assumes tiers: "PRE_BRIDGE (message_versions g) < BRIDGE (message_versions g)"
      "BRIDGE (message_versions g) < CAESAR (message_versions g)"
      "CAESAR (message_versions g) < HOLOGRAPHIC_ICE (message_versions g)"
      "HOLOGRAPHIC_ICE (message_versions g) < ENCRYPTED_SIGNALS (message_versions g)"
    and pre: "localGettingFromRemote s = GettingState_NONE" "socksToRtc s = None"
  shows "\<exists>e pc.
      socksToRtc (fst (startGet g remoteVersion s)) = Some e \<and>
      str_started e = Some (\<lparr>address = ''127.0.0.1'', port = 0\<rparr>, pc) \<and>
      (let commonVersion = min (effectiveMessageVersion g) remoteVersion;
           mv = message_versions g
       in (commonVersion = PRE_BRIDGE mv \<longrightarrow> pc = PeerConnectionClass ''sockstortc'') \<and>
          (commonVersion = BRIDGE mv \<longrightarrow> pc = bridge_preObfuscation ''sockstortc'') \<and>
          (commonVersion = CAESAR mv \<longrightarrow> pc = bridge_basicObfuscation ''sockstortc'') \<and>
          (commonVersion = HOLOGRAPHIC_ICE mv \<or> commonVersion = ENCRYPTED_SIGNALS mv \<longrightarrow>
             pc = bridge_holographicIceOnly ''sockstortc'' None) \<and>
          (commonVersion \<in> {PRE_BRIDGE mv, BRIDGE mv, CAESAR mv, HOLOGRAPHIC_ICE mv,
                             ENCRYPTED_SIGNALS mv} \<longrightarrow>
             rc4_calls (fst (startGet g remoteVersion s)) = rc4_calls s) \<and>
          (ENCRYPTED_SIGNALS mv < commonVersion \<longrightarrow>
             pc = bridge_holographicIceOnly ''sockstortc''
                    (Some (''rc4'', rc4_randomConfig g (rc4_calls s))) \<and>
             rc4_calls (fst (startGet g remoteVersion s)) = rc4_calls s + 1))"
  using assms
  by (auto simp: startGet_def startGet_switch_def generateProxyingSessionId_def sink_defs
                 Let_def new_SocksToRtc_def)

theorem startGet_selects_transport_witness:
  "\<exists>e. socksToRtc (fst (startGet example_globals 6 example_session)) = Some e \<and>
       str_started e = Some (\<lparr>address = ''127.0.0.1'', port = 0\<rparr>,
                             bridge_holographicIceOnly ''sockstortc'' (Some (''rc4'', ''key0''))) \<and>
       rc4_calls (fst (startGet example_globals 6 example_session)) = 1"
  using startGet_selects_transport [of example_globals example_session 6]
  by (auto simp: example_defs Let_def)

subsection \<open>The delayed state refresh\<close>

lemma handleBytes_pending:
  "isUpdatePending s \<Longrightarrow>
     isUpdatePending (handleBytes b s) \<and> timers (handleBytes b s) = timers s \<and>
     updates (handleBytes b s) = updates s"
  by (cases b) (simp_all add: handleBytesReceived_def handleBytesSent_def delayedUpdate_def)

lemma handleBytes_not_pending:
  "\<not> isUpdatePending s \<Longrightarrow>
     isUpdatePending (handleBytes b s) \<and> timers (handleBytes b s) = timers s @ [1000] \<and>
     updates (handleBytes b s) = updates s"
  by (cases b) (simp_all add: handleBytesReceived_def handleBytesSent_def delayedUpdate_def)

lemma deliver_bytes_pending:
  "isUpdatePending s \<Longrightarrow>
     isUpdatePending (deliver_bytes s bs) \<and> timers (deliver_bytes s bs) = timers s \<and>
     updates (deliver_bytes s bs) = updates s"
proof (induction bs arbitrary: s)
  case Nil
  then show ?case by simp
next
  case (Cons b bs)
  from handleBytes_pending [OF Cons.prems, of b] Cons.IH [of "handleBytes b s"]
  show ?case by simp
qed

text \<open>
  C7. Take a session with no refresh pending and a burst of \<open>N \<ge> 1\<close> byte-count events
  that arrive before the timer fires. The first event calls \<open>setTimeout\<close> once, with a delay
  of 1000 milliseconds; after the whole burst that is still the only timer added, the
  pending flag is set, and no update has been sent. When the timer's callback then runs it
  sends exactly one \<open>STATE\<close> update, carrying the counters as they stand, and clears the
  flag.
\<close>

theorem debounce_one_state_update:
  assumes "\<not> isUpdatePending s" and "bs \<noteq> []"
  shows "timers (handleBytes (hd bs) s) = timers s @ [1000] \<and>
         timers (deliver_bytes s bs) = timers s @ [1000] \<and>
         isUpdatePending (deliver_bytes s bs) \<and>
         updates (deliver_bytes s bs) = updates s \<and>
         updates (delayedUpdate_timeout (deliver_bytes s bs))
           = updates s @ [STATE (getCurrentState (deliver_bytes s bs))] \<and>
         \<not> isUpdatePending (delayedUpdate_timeout (deliver_bytes s bs))"
proof -
  from assms(2) obtain b bs' where bs: "bs = b # bs'"
    by (cases bs) auto
  have first: "isUpdatePending (handleBytes b s)"
      "timers (handleBytes b s) = timers s @ [1000]"
      "updates (handleBytes b s) = updates s"
    using handleBytes_not_pending [OF assms(1), of b] by simp_all
  from deliver_bytes_pending [OF first(1), of bs'] first bs
  have rest: "isUpdatePending (deliver_bytes s bs)"
      "timers (deliver_bytes s bs) = timers s @ [1000]"
      "updates (deliver_bytes s bs) = updates s"
    by simp_all
  show ?thesis
    using rest first bs by (simp add: delayedUpdate_timeout_def sink_defs)
qed

theorem debounce_witness:
  "timers (deliver_bytes example_session [Received 10, Sent 20, Received 5]) = [1000] \<and>
   updates (fire_timer (deliver_bytes example_session [Received 10, Sent 20, Received 5]))
     = [STATE \<lparr>cs_bytesSent = 20, cs_bytesReceived = 15,
               cs_localGettingFromRemote = GettingState_NONE,
               cs_localSharingWithRemote = SharingState_NONE,
               cs_activeEndpoint = None\<rparr>]"
  using debounce_one_state_update [of example_session "[Received 10, Sent 20, Received 5]"]
  by (simp add: example_defs fire_timer_def delayedUpdate_timeout_def sink_defs
        handleBytesReceived_def handleBytesSent_def delayedUpdate_def)

subsection \<open>One pair of byte counters for both roles\<close>

lemma startShare_wires:
  assumes "rtcToNet s = None"
  shows "\<exists>e. rtcToNet (fst (startShare g v s)) = Some e \<and>
             rtn_bytesReceivedFromPeer e = Some HandleBytesReceived \<and>
             rtn_bytesSentToPeer e = Some HandleBytesSent"
  using assms by (simp add: startShare_def sink_defs new_RtcToNet_def Let_def split: if_splits)

lemma startShare_getting_untouched:
  "socksToRtc (fst (startShare g v s)) = socksToRtc s \<and>
   localGettingFromRemote (fst (startShare g v s)) = localGettingFromRemote s"
  by (simp add: startShare_def sink_defs Let_def)

lemma startGet_switch_frame:
  "rtcToNet (fst (startGet_switch g v s)) = rtcToNet s \<and>
   socksToRtc (fst (startGet_switch g v s)) = socksToRtc s"
  by (simp add: startGet_switch_def sink_defs Let_def)

lemma startGet_sharing_untouched:
  "rtcToNet (fst (startGet g v s)) = rtcToNet s"
  by (simp add: startGet_def generateProxyingSessionId_def Let_def split_beta
        startGet_switch_frame metrics_increment_def)
     (simp add: sink_defs)

lemma startGet_wires:
  assumes "localGettingFromRemote s = GettingState_NONE" and "socksToRtc s = None"
  shows "\<exists>e. socksToRtc (fst (startGet g v s)) = Some e \<and>
             str_bytesReceivedFromPeer e = Some HandleBytesReceived \<and>
             str_bytesSentToPeer e = Some HandleBytesSent"
  using assms
  by (simp add: startGet_def generateProxyingSessionId_def sink_defs Let_def
        new_SocksToRtc_def split_beta)

lemma onceStopped_releases:
  assumes "rtcToNet s = Some e"
  shows "the_RtcToNet (Released (length (released_rtcToNet s))) (rtcToNet_onceStopped s) = Some e"
  using assms
  by (simp add: the_RtcToNet_def rtcToNet_onceStopped_def release_rtcToNet_def sink_defs Let_def)

lemma onceStopping_releases:
  assumes "socksToRtc s = Some e"
  shows "the_SocksToRtc (Released (length (released_socksToRtc s))) (socksToRtc_onceStopping s)
           = Some e"
  using assms
  by (simp add: the_SocksToRtc_def socksToRtc_onceStopping_def release_socksToRtc_def sink_defs
        Let_def)

text \<open>
  C10. After \<open>startShare\<close> and \<open>startGet\<close>, a byte-count event of the \<open>RtcToNet\<close> and the
  same event of the \<open>SocksToRtc\<close> run the same handler on the same two fields
  \<open>bytesSent_\<close> and \<open>bytesReceived_\<close>, and they still do so when the engine that emits them
  is one the session has just released. The stop-cleanup of the sharing role sets both
  fields to zero and touches neither the getting state nor the getting engine; the
  stop-cleanup of the getting role sets both to zero and touches neither the sharing state
  nor the sharing engine. So whichever role stops, the counts of the other are gone.
\<close>

theorem shared_byte_counters:
  assumes "rtcToNet s = None" and "socksToRtc s = None"
    and "localGettingFromRemote s = GettingState_NONE"
  shows "(let s2 = fst (startGet g v2 (fst (startShare g v1 s)))
          in step g s2 (RtcToNet_bytesReceived Current n) = handleBytesReceived n s2 \<and>
             step g s2 (SocksToRtc_bytesReceived Current n) = handleBytesReceived n s2 \<and>
             step g s2 (RtcToNet_bytesSent Current n) = handleBytesSent n s2 \<and>
             step g s2 (SocksToRtc_bytesSent Current n) = handleBytesSent n s2 \<and>
             step g (rtcToNet_onceStopped s2)
               (RtcToNet_bytesReceived (Released (length (released_rtcToNet s2))) n)
               = handleBytesReceived n (rtcToNet_onceStopped s2) \<and>
             step g (rtcToNet_onceStopped s2)
               (RtcToNet_bytesSent (Released (length (released_rtcToNet s2))) n)
               = handleBytesSent n (rtcToNet_onceStopped s2) \<and>
             step g (socksToRtc_onceStopping s2)
               (SocksToRtc_bytesReceived (Released (length (released_socksToRtc s2))) n)
               = handleBytesReceived n (socksToRtc_onceStopping s2) \<and>
             step g (socksToRtc_onceStopping s2)
               (SocksToRtc_bytesSent (Released (length (released_socksToRtc s2))) n)
               = handleBytesSent n (socksToRtc_onceStopping s2)) \<and>
         bytesReceived (handleBytesReceived n t) = bytesReceived t + n \<and>
         bytesSent (handleBytesReceived n t) = bytesSent t \<and>
         bytesSent (handleBytesSent n t) = bytesSent t + n \<and>
         bytesReceived (handleBytesSent n t) = bytesReceived t \<and>
         bytesSent (rtcToNet_onceStopped t) = 0 \<and>
         bytesReceived (rtcToNet_onceStopped t) = 0 \<and>
         localGettingFromRemote (rtcToNet_onceStopped t) = localGettingFromRemote t \<and>
         socksToRtc (rtcToNet_onceStopped t) = socksToRtc t \<and>
         bytesSent (socksToRtc_onceStopping t) = 0 \<and>
         bytesReceived (socksToRtc_onceStopping t) = 0 \<and>
         localSharingWithRemote (socksToRtc_onceStopping t) = localSharingWithRemote t \<and>
         rtcToNet (socksToRtc_onceStopping t) = rtcToNet t"
proof -
  let ?s1 = "fst (startShare g v1 s)"
  let ?s2 = "fst (startGet g v2 ?s1)"
  obtain e1 where e1: "rtcToNet ?s1 = Some e1"
      "rtn_bytesReceivedFromPeer e1 = Some HandleBytesReceived"
      "rtn_bytesSentToPeer e1 = Some HandleBytesSent"
    using startShare_wires [OF assms(1)] by blast
  have pre: "localGettingFromRemote ?s1 = GettingState_NONE" "socksToRtc ?s1 = None"
    using assms(2,3) startShare_getting_untouched [of g v1 s] by simp_all
  obtain e2 where e2: "socksToRtc ?s2 = Some e2"
      "str_bytesReceivedFromPeer e2 = Some HandleBytesReceived"
      "str_bytesSentToPeer e2 = Some HandleBytesSent"
    using startGet_wires [OF pre] by blast
  have e1': "rtcToNet ?s2 = Some e1"
    using e1(1) startGet_sharing_untouched [of g v2 ?s1] by simp
  have wired: "step g ?s2 (RtcToNet_bytesReceived Current n) = handleBytesReceived n ?s2"
      "step g ?s2 (SocksToRtc_bytesReceived Current n) = handleBytesReceived n ?s2"
      "step g ?s2 (RtcToNet_bytesSent Current n) = handleBytesSent n ?s2"
      "step g ?s2 (SocksToRtc_bytesSent Current n) = handleBytesSent n ?s2"
    using e1' e1(2,3) e2
    by (simp_all add: rtcToNet_emits_def socksToRtc_emits_def the_RtcToNet_def
          the_SocksToRtc_def run_bytes_handler_def)
  have released_share:
      "step g (rtcToNet_onceStopped ?s2)
         (RtcToNet_bytesReceived (Released (length (released_rtcToNet ?s2))) n)
         = handleBytesReceived n (rtcToNet_onceStopped ?s2)"
      "step g (rtcToNet_onceStopped ?s2)
         (RtcToNet_bytesSent (Released (length (released_rtcToNet ?s2))) n)
         = handleBytesSent n (rtcToNet_onceStopped ?s2)"
    using onceStopped_releases [OF e1'] e1(2,3)
    by (simp_all add: rtcToNet_emits_def run_bytes_handler_def)
  have released_get:
      "step g (socksToRtc_onceStopping ?s2)
         (SocksToRtc_bytesReceived (Released (length (released_socksToRtc ?s2))) n)
         = handleBytesReceived n (socksToRtc_onceStopping ?s2)"
      "step g (socksToRtc_onceStopping ?s2)
         (SocksToRtc_bytesSent (Released (length (released_socksToRtc ?s2))) n)
         = handleBytesSent n (socksToRtc_onceStopping ?s2)"
    using onceStopping_releases [OF e2(1)] e2(2,3)
    by (simp_all add: socksToRtc_emits_def run_bytes_handler_def)
  have counters: "bytesReceived (handleBytesReceived n t) = bytesReceived t + n"
      "bytesSent (handleBytesReceived n t) = bytesSent t"
      "bytesSent (handleBytesSent n t) = bytesSent t + n"
      "bytesReceived (handleBytesSent n t) = bytesReceived t"
    by (simp_all add: handleBytesReceived_def handleBytesSent_def delayedUpdate_def)
  have share_stop: "bytesSent (rtcToNet_onceStopped t) = 0"
      "bytesReceived (rtcToNet_onceStopped t) = 0"
      "localGettingFromRemote (rtcToNet_onceStopped t) = localGettingFromRemote t"
      "socksToRtc (rtcToNet_onceStopped t) = socksToRtc t"
    by (simp_all add: rtcToNet_onceStopped_def release_rtcToNet_def sink_defs Let_def)
  have get_stop: "bytesSent (socksToRtc_onceStopping t) = 0"
      "bytesReceived (socksToRtc_onceStopping t) = 0"
      "localSharingWithRemote (socksToRtc_onceStopping t) = localSharingWithRemote t"
      "rtcToNet (socksToRtc_onceStopping t) = rtcToNet t"
    by (simp_all add: socksToRtc_onceStopping_def release_socksToRtc_def sink_defs Let_def)
  show ?thesis
    unfolding Let_def
    using wired released_share released_get counters share_stop get_stop by simp
qed

theorem shared_byte_counters_witness:
  "rtcToNet example_session = None \<and> socksToRtc example_session = None \<and>
   localGettingFromRemote example_session = GettingState_NONE \<and>
   step example_globals
     (fst (startGet example_globals 6 (fst (startShare example_globals 2 example_session))))
     (RtcToNet_bytesReceived Current 700)
   = handleBytesReceived 700
       (fst (startGet example_globals 6 (fst (startShare example_globals 2 example_session)))) \<and>
   step example_globals
     (fst (startGet example_globals 6 (fst (startShare example_globals 2 example_session))))
     (SocksToRtc_bytesReceived Current 700)
   = handleBytesReceived 700
       (fst (startGet example_globals 6 (fst (startShare example_globals 2 example_session))))"
  using shared_byte_counters [of example_session example_globals 6 2 700]
  by (simp add: example_defs Let_def)

text \<open>
  On the example session: both roles are started, the getting engine reports its local
  endpoint and 700 bytes received, and then the sharing engine stops. The getting role is
  still active, and its byte count is gone. The released sharing engine then reports 30
  more bytes, and they are counted.
\<close>

lemma sharing_stop_erases_getting_counts:
  "bytesReceived
     (run example_globals example_session
        [Call_startShare 2, Call_startGet 6,
         SocksToRtc_started \<lparr>address = ''127.0.0.1'', port = 9999\<rparr>,
         SocksToRtc_bytesReceived Current 700]) = 700 \<and>
   bytesReceived
     (run example_globals example_session
        [Call_startShare 2, Call_startGet 6,
         SocksToRtc_started \<lparr>address = ''127.0.0.1'', port = 9999\<rparr>,
         SocksToRtc_bytesReceived Current 700, RtcToNet_stopped]) = 0 \<and>
   localGettingFromRemote
     (run example_globals example_session
        [Call_startShare 2, Call_startGet 6,
         SocksToRtc_started \<lparr>address = ''127.0.0.1'', port = 9999\<rparr>,
         SocksToRtc_bytesReceived Current 700, RtcToNet_stopped]) = GETTING_ACCESS \<and>
   bytesReceived
     (run example_globals example_session
        [Call_startShare 2, Call_startGet 6,
         SocksToRtc_started \<lparr>address = ''127.0.0.1'', port = 9999\<rparr>,
         SocksToRtc_bytesReceived Current 700, RtcToNet_stopped,
         RtcToNet_bytesReceived (Released 0) 30]) = 30"
  by code_simp

subsection \<open>The proxying session id\<close>

lemma excess_bits_zero: "M < 2 ^ 53 \<Longrightarrow> excess_bits M = 0"
  by (subst excess_bits.simps) simp

lemma excess_bits_upper: "M < 2 ^ (53 + excess_bits M)"
proof (induction M rule: excess_bits.induct)
  case (1 M)
  show ?case
  proof (cases "M < 2 ^ 53")
    case True
    then show ?thesis by (subst excess_bits.simps) simp
  next
    case False
    have k: "excess_bits M = Suc (excess_bits (M div 2))"
      using False by (subst excess_bits.simps) simp
    from False "1.IH" have "M div 2 < 2 ^ (53 + excess_bits (M div 2))" by simp
    then have "M < 2 * 2 ^ (53 + excess_bits (M div 2))" by linarith
    then show ?thesis by (simp add: k power_add)
  qed
qed

lemma excess_bits_lower: "0 < excess_bits M \<Longrightarrow> 2 ^ (52 + excess_bits M) \<le> M"
proof (induction M rule: excess_bits.induct)
  case (1 M)
  show ?case
  proof (cases "M < 2 ^ 53")
    case True
    with "1.prems" show ?thesis by (simp add: excess_bits_zero)
  next
    case False
    have k: "excess_bits M = Suc (excess_bits (M div 2))"
      using False by (subst excess_bits.simps) simp
    show ?thesis
    proof (cases "0 < excess_bits (M div 2)")
      case True
      with "1.IH" [OF False] have "2 ^ (52 + excess_bits (M div 2)) \<le> M div 2" by simp
      then have "2 * 2 ^ (52 + excess_bits (M div 2)) \<le> M" by linarith
      then show ?thesis by (simp add: k power_add)
    next
      case False
      with k have "excess_bits M = 1" by simp
      with \<open>\<not> M < 2 ^ 53\<close> show ?thesis by simp
    qed
  qed
qed

lemma excess_bits_le: "M < 2 ^ (53 + j) \<Longrightarrow> excess_bits M \<le> j"
proof (rule ccontr)
  assume lt: "M < 2 ^ (53 + j)" and "\<not> excess_bits M \<le> j"
  then have j: "j < excess_bits M" by simp
  then have "0 < excess_bits M" by simp
  then have "2 ^ (52 + excess_bits M) \<le> M" by (rule excess_bits_lower)
  moreover have "(2::int) ^ (53 + j) \<le> 2 ^ (52 + excess_bits M)"
    using j by (intro power_increasing) simp_all
  ultimately show False using lt by linarith
qed

lemma round_half_even_bounds:
  "M div 2 ^ k \<le> round_half_even M k \<and> round_half_even M k \<le> M div 2 ^ k + 1"
  by (simp add: round_half_even_def Let_def)


lemma round_half_even_below:
  assumes "2 * M + 2 ^ k < 2 * (N * 2 ^ k)"
  shows "round_half_even M k < N"
proof -
  define P :: int where "P = 2 ^ k"
  define q where "q = M div P"
  define r where "r = M mod P"
  have P: "0 < P" by (simp add: P_def)
  have M: "M = q * P + r" by (simp add: q_def r_def)
  have r: "0 \<le> r" "r < P" using P by (simp_all add: r_def)
  from assms have "2 * (q * P + r) + P < 2 * (N * P)"
    unfolding P_def [symmetric] M [symmetric] .
  then have lt: "(2 * q + 1) * P + 2 * r < (2 * N) * P"
    by (simp add: algebra_simps)
  with r have "(2 * q + 1) * P < (2 * N) * P" by linarith
  with P have "2 * q + 1 < 2 * N" by (simp add: mult_less_cancel_right)
  then have q: "q < N" by linarith
  show ?thesis
  proof (cases "q + 1 < N")
    case True
    with round_half_even_bounds [of M k] show ?thesis
      by (simp add: q_def P_def)
  next
    case False
    with q have "N = q + 1" by linarith
    with lt have "(2 * q + 1) * P + 2 * r < (2 * q + 2) * P" by simp
    then have "2 * r < P" by (simp add: algebra_simps)
    then have "round_half_even M k = q"
      by (simp add: round_half_even_def Let_def q_def r_def P_def)
    with q show ?thesis by simp
  qed
qed

lemma div_succ_le:
  fixes x c :: int
  assumes "0 < c"
  shows "(x + 1) div c \<le> x div c + 1"
proof -
  have "x + 1 \<le> x + c" using assms by simp
  then have "(x + 1) div c \<le> (x + c) div c" using assms by (intro zdiv_mono1) simp_all
  also have "\<dots> = x div c + 1" using assms div_add_self2 [of c x] by simp
  finally show ?thesis .
qed

lemma div_less_of_less_mult:
  fixes a b c :: int
  assumes "a < b * c" and "0 < c"
  shows "a div c < b"
proof (rule ccontr)
  assume "\<not> a div c < b"
  then have "b \<le> a div c" by simp
  with assms(2) have "b * c \<le> (a div c) * c" by (simp add: mult_right_mono)
  moreover have "(a div c) * c \<le> a"
    using pos_mod_sign [OF assms(2), of a] div_mult_mod_eq [of a c] by linarith
  ultimately show False using assms(1) by linarith
qed

lemma Math_floor_times_25:
  assumes "Math_random_result d"
  shows "(significand d * 25) div 2 ^ nat (- exponent d) \<le> Math_floor (double_times d 25)"
    and "Math_floor (double_times d 25) \<le> (significand d * 25) div 2 ^ nat (- exponent d) + 1"
    and "0 \<le> Math_floor (double_times d 25)"
    and "Math_floor (double_times d 25) \<le> 24"
proof -
  define m where "m = significand d"
  define p where "p = nat (- exponent d)"
  define M where "M = m * 25"
  define k where "k = excess_bits M"
  define M' where "M' = round_half_even M k"
  from assms have m: "0 \<le> m" "m < 2 ^ 53" "m < 2 ^ p" and e: "exponent d < 0"
    and ep: "exponent d = - int p"
    by (simp_all add: Math_random_result_def m_def p_def)
  from e ep have p: "0 < p" by simp
  have M0: "0 \<le> M" using m(1) by (simp add: M_def)
  have Mp: "M + 25 \<le> 25 * 2 ^ p" using m(3) by (simp add: M_def)
  have "M < 25 * 2 ^ 53" using m(2) by (simp add: M_def)
  then have "M < 2 ^ (53 + 5)" by simp
  then have k5: "k \<le> 5" unfolding k_def by (rule excess_bits_le)
  then have pow_k: "(2::int) ^ k \<le> 2 ^ 5" by (intro power_increasing) simp_all
  have kp: "k < p"
  proof (cases "0 < k")
    case False
    with p show ?thesis by simp
  next
    case True
    then have "2 ^ (52 + k) \<le> M" unfolding k_def by (rule excess_bits_lower)
    also have "M < 32 * 2 ^ p"
    proof -
      have "(0::int) < 2 ^ p" by simp
      with Mp show ?thesis by linarith
    qed
    also have "\<dots> = 2 ^ (5 + p)" by (simp add: power_add)
    finally have "(2::int) ^ (52 + k) < 2 ^ (5 + p)" .
    then have "52 + k < 5 + p" by (simp add: power_strict_increasing_iff)
    then show ?thesis by simp
  qed
  define c :: int where "c = 2 ^ (p - k)"
  have c: "0 < c" by (simp add: c_def)
  have ck: "2 ^ k * c = 2 ^ p" using kp by (simp add: c_def power_add [symmetric])
  have prod: "double_times d 25 = \<lparr>significand = M', exponent = - int (p - k)\<rparr>"
    using kp by (simp add: double_times_def Let_def M'_def k_def M_def m_def ep)
  have "\<not> 0 \<le> exponent (double_times d 25)" using kp by (simp add: prod)
  moreover have "nat (- exponent (double_times d 25)) = p - k" by (simp only: prod) simp
  ultimately have fl: "Math_floor (double_times d 25) = M' div c"
    by (simp only: Math_floor_def c_def if_False) (simp add: prod)
  have q: "M div 2 ^ k \<le> M'" "M' \<le> M div 2 ^ k + 1"
    using round_half_even_bounds [of M k] by (simp_all add: M'_def)
  have split: "(M div 2 ^ k) div c = M div 2 ^ p"
    using c by (simp add: zdiv_zmult2_eq [symmetric] ck)
  have "(M div 2 ^ k) div c \<le> M' div c"
    using q(1) c by (intro zdiv_mono1) simp_all
  then have lower: "M div 2 ^ p \<le> M' div c" by (simp add: split)
  have "M' div c \<le> (M div 2 ^ k + 1) div c"
    using q(2) c by (intro zdiv_mono1) simp_all
  also have "\<dots> \<le> (M div 2 ^ k) div c + 1" using c by (rule div_succ_le)
  finally have upper: "M' div c \<le> M div 2 ^ p + 1" by (simp add: split)
  have "2 * M + 2 ^ k < 2 * (25 * 2 ^ p)" using Mp pow_k by simp
  also have "\<dots> = 2 * ((25 * c) * 2 ^ k)" using ck by (simp add: mult.commute mult.left_commute)
  finally have "M' < 25 * c" unfolding M'_def by (rule round_half_even_below)
  then have top: "M' div c < 25" using c by (rule div_less_of_less_mult)
  have "0 \<le> M div 2 ^ p" using M0 by (simp add: pos_imp_zdiv_nonneg_iff)
  with lower have nonneg: "0 \<le> M' div c" by simp
  show "(significand d * 25) div 2 ^ nat (- exponent d) \<le> Math_floor (double_times d 25)"
    using lower by (simp add: fl M_def m_def p_def)
  show "Math_floor (double_times d 25) \<le> (significand d * 25) div 2 ^ nat (- exponent d) + 1"
    using upper by (simp add: fl M_def m_def p_def)
  show "0 \<le> Math_floor (double_times d 25)" using nonneg by (simp add: fl)
  show "Math_floor (double_times d 25) \<le> 24" using top by (simp add: fl)
qed


lemma randomCharCode_range:
  assumes "Math_random_result r"
  shows "97 \<le> randomCharCode r \<and> randomCharCode r \<le> 121"
  using Math_floor_times_25(3,4) [OF assms] by (simp add: randomCharCode_def)



text \<open>
  Two results of \<open>Math.random\<close> where the product is rounded. The double nearest to 0.6 lies
  below 0.6; its product with 25 is rounded to 15, and the letter is \<open>p\<close>, not \<open>o\<close>. The
  largest double below 1 gives 24, the letter \<open>y\<close>.
\<close>

lemma randomCharCode_rounded:
  "randomCharCode \<lparr>significand = 5404319552844595, exponent = - 53\<rparr> = 112 \<and>
   randomCharCode \<lparr>significand = 9007199254740991, exponent = - 53\<rparr> = 121"
  by code_simp



text \<open>
  The comment in the code announces a number between 97 and 122 inclusive, for \<open>a\<close> and
  \<open>z\<close>. The number computed is at most 121: no result of \<open>Math.random\<close> gives \<open>z\<close>.
\<close>

lemma randomCharCode_never_z:
  assumes "Math_random_result r"
  shows "String_fromCharCode (randomCharCode r) \<noteq> CHR ''z''"
proof
  assume z: "String_fromCharCode (randomCharCode r) = CHR ''z''"
  have "of_char (String_fromCharCode (randomCharCode r)) = randomCharCode r mod 256"
    by (simp add: String_fromCharCode_def)
  with z have "randomCharCode r mod 256 = 122" by simp
  with randomCharCode_range [OF assms] show False by simp
qed















subsection \<open>The path of the sharing state\<close>





lemma bytes_handler_frame:
  "localSharingWithRemote (run_bytes_handler h n s) = localSharingWithRemote s \<and>
   rtcToNet (run_bytes_handler h n s) = rtcToNet s \<and>
   localGettingFromRemote (run_bytes_handler h n s) = localGettingFromRemote s \<and>
   socksToRtc (run_bytes_handler h n s) = socksToRtc s"
  by (simp add: run_bytes_handler_def handleBytesReceived_def handleBytesSent_def
        delayedUpdate_def split: option.splits bytes_handler.splits)

lemma status_handler_frame:
  "localSharingWithRemote (run_status_handler h st s) = localSharingWithRemote s \<and>
   rtcToNet (run_status_handler h st s) = rtcToNet s \<and>
   localGettingFromRemote (run_status_handler h st s) = localGettingFromRemote s \<and>
   socksToRtc (run_status_handler h st s) = socksToRtc s"
  by (simp add: run_status_handler_def handleStatusUpdate_def sink_defs
        split: option.splits status_handler.splits Status.splits)

lemma signal_handler_frame:
  "localSharingWithRemote (run_signal_handler h m s) = localSharingWithRemote s \<and>
   rtcToNet (run_signal_handler h m s) = rtcToNet s \<and>
   localGettingFromRemote (run_signal_handler h m s) = localGettingFromRemote s \<and>
   socksToRtc (run_signal_handler h m s) = socksToRtc s"
  by (simp add: run_signal_handler_def createSender_def sink_defs
        split: option.splits signal_handler.splits)

lemma fire_timer_frame:
  "localSharingWithRemote (fire_timer s) = localSharingWithRemote s \<and>
   rtcToNet (fire_timer s) = rtcToNet s \<and>
   localGettingFromRemote (fire_timer s) = localGettingFromRemote s \<and>
   socksToRtc (fire_timer s) = socksToRtc s"
  by (simp add: fire_timer_def delayedUpdate_timeout_def sink_defs split: list.splits)






lemma quiet_events_frame:
  assumes "case e of
             Call_resetSharerCreated \<Rightarrow> True
           | RtcToNet_bytesReceived ref n \<Rightarrow> True
           | RtcToNet_bytesSent ref n \<Rightarrow> True
           | RtcToNet_status ref st \<Rightarrow> True
           | RtcToNet_signalForPeer ref m \<Rightarrow> True
           | SocksToRtc_bytesReceived ref n \<Rightarrow> True
           | SocksToRtc_bytesSent ref n \<Rightarrow> True
           | SocksToRtc_signalForPeer ref m \<Rightarrow> True
           | Timeout \<Rightarrow> True
           | _ \<Rightarrow> False"
  shows "localSharingWithRemote (step g s e) = localSharingWithRemote s \<and>
         rtcToNet (step g s e) = rtcToNet s \<and>
         localGettingFromRemote (step g s e) = localGettingFromRemote s \<and>
         socksToRtc (step g s e) = socksToRtc s"
  using assms
  by (cases e)
     (simp_all add: rtcToNet_emits_def socksToRtc_emits_def resetSharerCreated_def
        bytes_handler_frame status_handler_frame signal_handler_frame fire_timer_frame
        split: option.splits)







subsection \<open>The getting state and the getting engine\<close>

lemma startGet_getting_inv:
  "getting_inv s \<Longrightarrow> getting_inv (fst (startGet g v s))"
proof (cases "localGettingFromRemote s = GettingState_NONE \<and> socksToRtc s = None")
  case True
  then obtain e where "socksToRtc (fst (startGet g v s)) = Some e"
    using startGet_wires [of s g v] by blast
  then show ?thesis by (simp add: getting_inv_def)
next
  case False
  assume "getting_inv s"
  with False show ?thesis
    by (auto simp: startGet_def logger_def getting_inv_def)
qed

lemma stopGet_getting:
  "localGettingFromRemote (fst (stopGet s)) = GettingState_NONE"
  by (simp add: stopGet_def sink_defs Let_def split: option.splits)

lemma stopGet_keeps_engine:
  assumes "localGettingFromRemote s \<noteq> GettingState_NONE" and "socksToRtc s = Some e"
  shows "socksToRtc (fst (stopGet s)) = Some (e\<lparr>str_stop_calls := str_stop_calls e + 1\<rparr>)"
  using assms by (simp add: stopGet_def sink_defs Let_def)

lemma start_settled_engine:
  "socksToRtc (fst (socksToRtc_start_settled r s)) = socksToRtc s"
  by (simp add: socksToRtc_start_settled_def sink_defs Let_def split: settled.splits)

lemma start_rejected_getting:
  "localGettingFromRemote (fst (socksToRtc_start_settled (Rejected c) s)) = GettingState_NONE"
  by (simp add: socksToRtc_start_settled_def sink_defs)

lemma onceStopping_getting:
  "localGettingFromRemote (socksToRtc_onceStopping s) = GettingState_NONE \<and>
   socksToRtc (socksToRtc_onceStopping s) = None"
  by (simp add: socksToRtc_onceStopping_def release_socksToRtc_def sink_defs Let_def)

lemma handleSignal_frame_getting:
  "localGettingFromRemote (fst (handleSignal m s)) = localGettingFromRemote s \<and>
   (socksToRtc (fst (handleSignal m s)) = None \<longleftrightarrow> socksToRtc s = None)"
  by (simp add: handleSignal_def forwardSignal_def handleMetadataSignal_def logger_def
        rtcToNet_handleSignalFromPeer_def socksToRtc_handleSignalFromPeer_def
        split: option.splits)

lemma sharing_ops_frame_getting:
  "localGettingFromRemote (fst (stopShare s)) = localGettingFromRemote s \<and>
   socksToRtc (fst (stopShare s)) = socksToRtc s \<and>
   localGettingFromRemote (rtcToNet_onceStopped s) = localGettingFromRemote s \<and>
   socksToRtc (rtcToNet_onceStopped s) = socksToRtc s \<and>
   localGettingFromRemote (rtcToNet_onceReady_fulfilled s) = localGettingFromRemote s \<and>
   socksToRtc (rtcToNet_onceReady_fulfilled s) = socksToRtc s"
  by (simp add: stopShare_def rtcToNet_onceStopped_def rtcToNet_onceReady_fulfilled_def
        release_rtcToNet_def sink_defs Let_def split: option.splits)

lemma startGet_keeps_engine:
  assumes "socksToRtc s \<noteq> None"
  shows "socksToRtc (fst (startGet g v s)) \<noteq> None"
  using assms by (simp add: startGet_def logger_def)

lemma startGet_trying_inv:
  "trying_inv s \<Longrightarrow> trying_inv (fst (startGet g v s))"
proof (cases "localGettingFromRemote s = GettingState_NONE \<and> socksToRtc s = None")
  case True
  then obtain e where "socksToRtc (fst (startGet g v s)) = Some e"
    using startGet_wires [of s g v] by blast
  then show ?thesis by (simp add: trying_inv_def)
next
  case False
  assume "trying_inv s"
  with False show ?thesis
    by (auto simp: startGet_def logger_def trying_inv_def)
qed

lemma stopGet_engine:
  "socksToRtc (fst (stopGet s)) = None \<longleftrightarrow> socksToRtc s = None"
  by (simp add: stopGet_def sink_defs Let_def split: option.splits)

lemma start_fulfilled_getting:
  "localGettingFromRemote (fst (socksToRtc_start_settled (Fulfilled ep) s)) = GETTING_ACCESS"
  by (simp add: socksToRtc_start_settled_def sink_defs Let_def)

text \<open>
  The events other than those of the getting role leave the getting state as it is, and
  the reference to the getting engine null or not null as it is.
\<close>

lemma other_events_frame_getting:
  assumes "\<not> getting_event e"
  shows "localGettingFromRemote (step g s e) = localGettingFromRemote s \<and>
         (socksToRtc (step g s e) = None \<longleftrightarrow> socksToRtc s = None)"
proof (cases e)
  case (Call_startShare v)
  with startShare_getting_untouched [of g v s] show ?thesis by simp
next
  case Call_stopShare
  with sharing_ops_frame_getting [of s] show ?thesis by simp
next
  case (Call_startGet v)
  with assms show ?thesis by simp
next
  case Call_stopGet
  with assms show ?thesis by simp
next
  case (Call_handleSignal m)
  with handleSignal_frame_getting [of m s] show ?thesis by simp
next
  case Call_resetSharerCreated
  with quiet_events_frame [of e g s] show ?thesis by simp
next
  case RtcToNet_ready
  with sharing_ops_frame_getting [of s] show ?thesis by simp
next
  case RtcToNet_ready_failed
  with sharing_ops_frame_getting [of s] show ?thesis
    by (simp add: rtcToNet_onceReady_rejected_def)
next
  case RtcToNet_stopped
  with sharing_ops_frame_getting [of s] show ?thesis by simp
next
  case (RtcToNet_bytesReceived ref n)
  with quiet_events_frame [of e g s] show ?thesis by simp
next
  case (RtcToNet_bytesSent ref n)
  with quiet_events_frame [of e g s] show ?thesis by simp
next
  case (RtcToNet_status ref st)
  with quiet_events_frame [of e g s] show ?thesis by simp
next
  case (RtcToNet_signalForPeer ref m)
  with quiet_events_frame [of e g s] show ?thesis by simp
next
  case (SocksToRtc_started ep)
  with assms show ?thesis by simp
next
  case (SocksToRtc_start_failed err)
  with assms show ?thesis by simp
next
  case SocksToRtc_stopping
  with assms show ?thesis by simp
next
  case (SocksToRtc_bytesReceived ref n)
  with quiet_events_frame [of e g s] show ?thesis by simp
next
  case (SocksToRtc_bytesSent ref n)
  with quiet_events_frame [of e g s] show ?thesis by simp
next
  case (SocksToRtc_signalForPeer ref m)
  with quiet_events_frame [of e g s] show ?thesis by simp
next
  case Timeout
  with quiet_events_frame [of e g s] show ?thesis by simp
qed

text \<open>No event but the fulfilment of \<open>onceStopping_\<close> takes the getting engine away.\<close>

lemma only_stopping_clears:
  assumes "e \<noteq> SocksToRtc_stopping" and "socksToRtc s \<noteq> None"
  shows "socksToRtc (step g s e) \<noteq> None"
proof (cases "getting_event e")
  case False
  with other_events_frame_getting [of e g s] assms(2) show ?thesis by simp
next
  case True
  with assms(1) consider v where "e = Call_startGet v" | "e = Call_stopGet"
    | ep where "e = SocksToRtc_started ep" | err where "e = SocksToRtc_start_failed err"
    by (cases e) simp_all
  then show ?thesis
  proof cases
    case 1
    with startGet_keeps_engine [OF assms(2), of g v] show ?thesis by simp
  next
    case 2
    with stopGet_engine [of s] assms(2) show ?thesis by simp
  next
    case 3
    with start_settled_engine [of "Fulfilled ep" s] assms(2) show ?thesis by simp
  next
    case 4
    with start_settled_engine [of "Rejected err" s] assms(2) show ?thesis by simp
  qed
qed

lemma trying_step:
  assumes "trying_inv s"
  shows "trying_inv (step g s e)"
proof (cases "getting_event e")
  case False
  with other_events_frame_getting [of e g s] assms show ?thesis
    by (simp add: trying_inv_def)
next
  case True
  then consider v where "e = Call_startGet v" | "e = Call_stopGet"
    | ep where "e = SocksToRtc_started ep" | err where "e = SocksToRtc_start_failed err"
    | "e = SocksToRtc_stopping"
    by (cases e) simp_all
  then show ?thesis
  proof cases
    case 1
    with startGet_trying_inv [OF assms, of g v] show ?thesis by simp
  next
    case 2
    with stopGet_getting [of s] show ?thesis by (simp add: trying_inv_def)
  next
    case 3
    with start_fulfilled_getting [of ep s] show ?thesis by (simp add: trying_inv_def)
  next
    case 4
    with start_rejected_getting [of err s] show ?thesis by (simp add: trying_inv_def)
  next
    case 5
    with onceStopping_getting [of s] show ?thesis by (simp add: trying_inv_def)
  qed
qed

lemma trying_run:
  "trying_inv s \<Longrightarrow> trying_inv (run g s evs)"
proof (induction evs arbitrary: s)
  case Nil
  then show ?case by simp
next
  case (Cons e es)
  from trying_step [OF Cons.prems] have "trying_inv (step g s e)" .
  from Cons.IH [OF this] show ?case by simp
qed

lemma getting_step:
  assumes "getting_inv s" and "is_started e \<longrightarrow> socksToRtc s \<noteq> None"
  shows "getting_inv (step g s e)"
proof (cases "getting_event e")
  case False
  with other_events_frame_getting [of e g s] assms(1) show ?thesis
    by (simp add: getting_inv_def)
next
  case True
  then consider v where "e = Call_startGet v" | "e = Call_stopGet"
    | ep where "e = SocksToRtc_started ep" | err where "e = SocksToRtc_start_failed err"
    | "e = SocksToRtc_stopping"
    by (cases e) simp_all
  then show ?thesis
  proof cases
    case 1
    with startGet_getting_inv [OF assms(1), of g v] show ?thesis by simp
  next
    case 2
    with stopGet_getting [of s] show ?thesis by (simp add: getting_inv_def)
  next
    case 3
    with assms(2) start_settled_engine [of "Fulfilled ep" s] show ?thesis
      by (simp add: getting_inv_def)
  next
    case 4
    with start_rejected_getting [of err s] show ?thesis by (simp add: getting_inv_def)
  next
    case 5
    with onceStopping_getting [of s] show ?thesis by (simp add: getting_inv_def)
  qed
qed

lemma getting_run:
  "getting_inv s \<Longrightarrow> started_with_engine g s evs \<Longrightarrow> getting_inv (run g s evs)"
proof (induction evs arbitrary: s)
  case Nil
  then show ?case by simp
next
  case (Cons e es)
  from Cons.prems have now: "is_started e \<longrightarrow> socksToRtc s \<noteq> None"
    and rest: "started_with_engine g (step g s e) es"
    by simp_all
  from getting_step [OF Cons.prems(1) now] have "getting_inv (step g s e)" .
  from Cons.IH [OF this rest] show ?case by simp
qed

text \<open>
  Where the fulfilment of \<open>start\<close> is delivered to a session that holds no getting engine,
  the state it leaves is \<open>GETTING_ACCESS\<close> with a null engine reference.
\<close>

lemma started_without_engine:
  "\<not> started_with_engine g s evs \<Longrightarrow>
   \<exists>n<length evs.
     localGettingFromRemote (run g s (take (Suc n) evs)) = GETTING_ACCESS \<and>
     socksToRtc (run g s (take (Suc n) evs)) = None"
proof (induction evs arbitrary: s)
  case Nil
  then show ?case by simp
next
  case (Cons e es)
  show ?case
  proof (cases "is_started e \<and> socksToRtc s = None")
    case True
    then obtain ep where e: "e = SocksToRtc_started ep" by (cases e) simp_all
    from True start_fulfilled_getting [of ep s] start_settled_engine [of "Fulfilled ep" s]
    have "localGettingFromRemote (run g s (take (Suc 0) (e # es))) = GETTING_ACCESS \<and>
          socksToRtc (run g s (take (Suc 0) (e # es))) = None"
      by (simp add: e)
    then show ?thesis by blast
  next
    case False
    with Cons.prems have "\<not> started_with_engine g (step g s e) es" by auto
    from Cons.IH [OF this] obtain n where n: "n < length es"
      and "localGettingFromRemote (run g (step g s e) (take (Suc n) es)) = GETTING_ACCESS \<and>
           socksToRtc (run g (step g s e) (take (Suc n) es)) = None"
      by blast
    then have "localGettingFromRemote (run g s (take (Suc (Suc n)) (e # es))) = GETTING_ACCESS \<and>
               socksToRtc (run g s (take (Suc (Suc n)) (e # es))) = None"
      by simp
    moreover from n have "Suc n < length (e # es)" by simp
    ultimately show ?thesis by blast
  qed
qed

text \<open>
  C9, as amended. Take any sequence of method calls, engine signals, queue events and
  timer firings on a new session. In the state it leads to, the getting state
  \<open>TRYING_TO_GET_ACCESS\<close> comes with a getting engine. A getting state other than \<open>NONE\<close>
  comes with a getting engine if the fulfilment of the engine's \<open>start\<close> promise was
  never delivered while the session held no getting engine; if it was, the sequence
  has passed through a state with the getting state \<open>GETTING_ACCESS\<close> and a null engine
  reference. The getting state \<open>NONE\<close> does not come with a null reference, as the code
  sets the state to \<open>NONE\<close> before it lets go of the engine: \<open>stopGet\<close> on an active
  session leaves the state at \<open>NONE\<close> and the same engine in place, with one more call
  of its \<open>stop\<close>; the \<open>catch\<close> callback of a failed start leaves the state at \<open>NONE\<close> and
  the engine reference as it was; the callback on \<open>onceStopping_\<close> sets the state to
  \<open>NONE\<close> and the reference to null, and nothing else sets the reference to null: every
  other event, in any state, leaves a reference that is not null not null.
\<close>

theorem getting_state_and_engine:
  "(localGettingFromRemote (run g (new_RemoteConnection uid) evs) = TRYING_TO_GET_ACCESS
      \<longrightarrow> socksToRtc (run g (new_RemoteConnection uid) evs) \<noteq> None) \<and>
   (started_with_engine g (new_RemoteConnection uid) evs \<longrightarrow>
      localGettingFromRemote (run g (new_RemoteConnection uid) evs) \<noteq> GettingState_NONE
      \<longrightarrow> socksToRtc (run g (new_RemoteConnection uid) evs) \<noteq> None) \<and>
   (\<not> started_with_engine g (new_RemoteConnection uid) evs \<longrightarrow>
      (\<exists>n<length evs.
         localGettingFromRemote (run g (new_RemoteConnection uid) (take (Suc n) evs))
           = GETTING_ACCESS \<and>
         socksToRtc (run g (new_RemoteConnection uid) (take (Suc n) evs)) = None)) \<and>
   (ev \<noteq> SocksToRtc_stopping \<and> socksToRtc t \<noteq> None \<longrightarrow> socksToRtc (step g t ev) \<noteq> None) \<and>
   (localGettingFromRemote t \<noteq> GettingState_NONE \<and> socksToRtc t = Some engine \<longrightarrow>
      localGettingFromRemote (fst (stopGet t)) = GettingState_NONE \<and>
      socksToRtc (fst (stopGet t))
        = Some (engine\<lparr>str_stop_calls := str_stop_calls engine + 1\<rparr>)) \<and>
   localGettingFromRemote (fst (socksToRtc_start_settled (Rejected c) t)) = GettingState_NONE \<and>
   socksToRtc (fst (socksToRtc_start_settled (Rejected c) t)) = socksToRtc t \<and>
   localGettingFromRemote (socksToRtc_onceStopping t) = GettingState_NONE \<and>
   socksToRtc (socksToRtc_onceStopping t) = None"
proof -
  let ?init = "new_RemoteConnection uid"
  have init: "trying_inv ?init" "getting_inv ?init"
    by (simp_all add: trying_inv_def getting_inv_def new_RemoteConnection_def
          resetSharerCreated_def)
  from trying_run [OF init(1), of g evs]
  have trying: "localGettingFromRemote (run g ?init evs) = TRYING_TO_GET_ACCESS
      \<longrightarrow> socksToRtc (run g ?init evs) \<noteq> None"
    by (simp add: trying_inv_def)
  have active: "started_with_engine g ?init evs \<longrightarrow>
      localGettingFromRemote (run g ?init evs) \<noteq> GettingState_NONE
      \<longrightarrow> socksToRtc (run g ?init evs) \<noteq> None"
    using getting_run [OF init(2), of g evs] by (simp add: getting_inv_def)
  have broken: "\<not> started_with_engine g ?init evs \<longrightarrow>
      (\<exists>n<length evs.
         localGettingFromRemote (run g ?init (take (Suc n) evs)) = GETTING_ACCESS \<and>
         socksToRtc (run g ?init (take (Suc n) evs)) = None)"
    using started_without_engine [of g ?init evs] by blast
  have only: "ev \<noteq> SocksToRtc_stopping \<and> socksToRtc t \<noteq> None
      \<longrightarrow> socksToRtc (step g t ev) \<noteq> None"
    using only_stopping_clears [of ev t g] by blast
  have stop: "localGettingFromRemote t \<noteq> GettingState_NONE \<and> socksToRtc t = Some engine \<longrightarrow>
      localGettingFromRemote (fst (stopGet t)) = GettingState_NONE \<and>
      socksToRtc (fst (stopGet t))
        = Some (engine\<lparr>str_stop_calls := str_stop_calls engine + 1\<rparr>)"
    using stopGet_getting [of t] stopGet_keeps_engine [of t engine] by blast
  from trying active broken only stop start_rejected_getting [of c t]
    start_settled_engine [of "Rejected c" t] onceStopping_getting [of t]
  show ?thesis by (intro conjI) simp_all
qed

theorem getting_state_and_engine_witness:
  "started_with_engine example_globals example_session
     [Call_startGet 6, SocksToRtc_started \<lparr>address = ''127.0.0.1'', port = 9999\<rparr>] \<and>
   localGettingFromRemote
     (run example_globals example_session
        [Call_startGet 6, SocksToRtc_started \<lparr>address = ''127.0.0.1'', port = 9999\<rparr>])
     = GETTING_ACCESS \<and>
   socksToRtc
     (run example_globals example_session
        [Call_startGet 6, SocksToRtc_started \<lparr>address = ''127.0.0.1'', port = 9999\<rparr>])
     \<noteq> None \<and>
   socksToRtc
     (fst (stopGet (run example_globals example_session
        [Call_startGet 6, SocksToRtc_started \<lparr>address = ''127.0.0.1'', port = 9999\<rparr>])))
     \<noteq> None \<and>
   socksToRtc
     (step example_globals
        (run example_globals example_session
           [Call_startGet 6, SocksToRtc_started \<lparr>address = ''127.0.0.1'', port = 9999\<rparr>])
        (Call_handleSignal
           \<lparr>msg_type = SIGNAL_FROM_SERVER_PEER,
            msg_data = \<lparr>md_signals = Some [''answer''], md_proxyingId = None\<rparr>\<rparr>))
     \<noteq> None \<and>
   socksToRtc (run example_globals example_session [Call_startGet 6]) \<noteq> None"
proof -
  let ?evs = "[Call_startGet 6, SocksToRtc_started \<lparr>address = ''127.0.0.1'', port = 9999\<rparr>]"
  let ?t = "run example_globals (new_RemoteConnection (Some ''alice'')) ?evs"
  let ?ev = "Call_handleSignal
           \<lparr>msg_type = SIGNAL_FROM_SERVER_PEER,
            msg_data = \<lparr>md_signals = Some [''answer''], md_proxyingId = None\<rparr>\<rparr>"
  have h: "started_with_engine example_globals (new_RemoteConnection (Some ''alice'')) ?evs"
    by code_simp
  have st: "localGettingFromRemote ?t = GETTING_ACCESS"
    by code_simp
  have trying: "localGettingFromRemote
      (run example_globals (new_RemoteConnection (Some ''alice'')) [Call_startGet 6])
        = TRYING_TO_GET_ACCESS"
    by code_simp
  from getting_state_and_engine [of example_globals "Some ''alice''" ?evs] h st
  have eng: "socksToRtc ?t \<noteq> None"
    by simp
  then obtain e where e: "socksToRtc ?t = Some e" by blast
  from getting_state_and_engine [of example_globals "Some ''alice''" ?evs ?ev ?t e] st e
  have stop: "socksToRtc (fst (stopGet ?t)) \<noteq> None"
    and other: "socksToRtc (step example_globals ?t ?ev) \<noteq> None"
    by simp_all
  from getting_state_and_engine [of example_globals "Some ''alice''" "[Call_startGet 6]"] trying
  have "socksToRtc (run example_globals (new_RemoteConnection (Some ''alice''))
           [Call_startGet 6]) \<noteq> None"
    by simp
  with h st eng stop other show ?thesis
    by (simp add: example_session_def)
qed

text \<open>
  The claim as it was stated fails in both directions. After \<open>startGet\<close> and \<open>stopGet\<close>,
  and likewise after \<open>startGet\<close> and a failed start, the getting state is \<open>NONE\<close> while
  the engine reference is not null, the callback on \<open>onceStopping_\<close> not having run yet.
  And after \<open>startGet\<close>, the fulfilment of \<open>onceStopping_\<close> and then the fulfilment of the
  \<open>start\<close> promise, the getting state is \<open>GETTING_ACCESS\<close> while the engine reference is
  null.
\<close>

theorem getting_state_and_engine_counterexample:
  "localGettingFromRemote (run example_globals example_session [Call_startGet 6, Call_stopGet])
     = GettingState_NONE \<and>
   socksToRtc (run example_globals example_session [Call_startGet 6, Call_stopGet]) \<noteq> None \<and>
   localGettingFromRemote
     (run example_globals example_session
        [Call_startGet 6, SocksToRtc_start_failed (Error ''timeout'')])
     = GettingState_NONE \<and>
   socksToRtc
     (run example_globals example_session
        [Call_startGet 6, SocksToRtc_start_failed (Error ''timeout'')]) \<noteq> None \<and>
   localGettingFromRemote
     (run example_globals example_session
        [Call_startGet 6, SocksToRtc_stopping,
         SocksToRtc_started \<lparr>address = ''127.0.0.1'', port = 9999\<rparr>])
     = GETTING_ACCESS \<and>
   socksToRtc
     (run example_globals example_session
        [Call_startGet 6, SocksToRtc_stopping,
         SocksToRtc_started \<lparr>address = ''127.0.0.1'', port = 9999\<rparr>]) = None"
  by code_simp

end
